theory Spec2Isabelle
  imports Main
begin

section \<open>Data model\<close>

text \<open>
  The entities of \<^verbatim>\<open>models/Slot.ts\<close>, \<^verbatim>\<open>models/Booking.ts\<close> and
  \<^verbatim>\<open>models/User.ts\<close>. Identifiers are strings, instants are milliseconds since the
  epoch (the value of a JavaScript \<^verbatim>\<open>Date\<close>), counts are integers (the columns are
  \<^verbatim>\<open>int\<close>, the GraphQL inputs are \<^verbatim>\<open>Int\<close>). The decimal \<^verbatim>\<open>price\<close> and
  \<^verbatim>\<open>totalPrice\<close> columns, the creation and update timestamps and the user's
  credentials take part in no decision of the booking paths and are left out. Slots and
  users are stored under their primary key, so the key is not repeated in the row.
\<close>

datatype SlotStatus = AVAILABLE | HELD | BOOKED | BLOCKED

datatype BookingStatus = PENDING | CONFIRMED | CANCELLED | COMPLETED | NO_SHOW

datatype UserRole = GUEST | MEMBER | ADMIN

record Slot =
  s_venueId :: string
  s_date :: string
  startTime :: int
  endTime :: int
  capacity :: int
  remainingCapacity :: int
  s_status :: SlotStatus
  s_metadata :: "string \<rightharpoonup> string"
  heldUntil :: "int option"

record Booking =
  b_id :: string
  b_userId :: string
  b_slotId :: string
  b_venueId :: string
  confirmationCode :: string
  b_status :: BookingStatus
  guestCount :: int
  b_notes :: "string option"
  bookingDate :: string
  cancelledAt :: "int option"
  cancellationReason :: "string option"
  confirmedAt :: "int option"
  completedAt :: "int option"

record User =
  u_role :: UserRole
  isActive :: bool

section \<open>Errors\<close>

text \<open>
  \<^verbatim>\<open>BookingError\<close> carries a machine code and an HTTP status (400 when the
  constructor is given none). Everything else that can be thrown through the service is
  an infrastructure failure of a collaborator.
\<close>

datatype ErrorCode =
    SLOT_LOCKED | USER_NOT_FOUND | MAX_BOOKINGS_REACHED | SLOT_NOT_FOUND | SLOT_BLOCKED
  | INSUFFICIENT_CAPACITY | SLOT_IN_PAST | ADVANCE_LIMIT_EXCEEDED | DUPLICATE_BOOKING
  | BOOKING_NOT_FOUND | UNAUTHORIZED | CANCELLATION_NOT_ALLOWED

datatype InfraFailure =
    CommitFailure | UniqueViolation | CheckViolation | NotNullViolation | CacheFailure
  | QueueFailure
  | TransactionNotStartedError

datatype Error = BookingError ErrorCode nat | InfraError InfraFailure

definition bookingError :: "ErrorCode \<Rightarrow> Error" where
  "bookingError c = BookingError c 400"

section \<open>Environment of one invocation\<close>

text \<open>
  What a call reads from outside the stores: the configuration (the three
  \<^verbatim>\<open>process.env\<close> numbers, after \<^verbatim>\<open>parseInt\<close>), the clock, the random sources,
  and whether each infrastructure call of the invocation goes through. \<^verbatim>\<open>commitOk n\<close>
  is the outcome of the \<open>n\<close>-th \<^verbatim>\<open>commitTransaction\<close> the invocation issues, counted
  from 0. One clock reading stands for the \<^verbatim>\<open>new Date()\<close> calls of one invocation.
  \<open>newBookingId\<close> is the primary key the database generates for the inserted booking,
  \<open>uuid\<close> the value of \<^verbatim>\<open>uuidv4()\<close> and \<open>random36\<close> the random part of the lock
  token.
\<close>

record Env =
  maxConcurrentBookingsPerUser :: int
  maxBookingAdvanceDays :: int
  cancellationWindowHours :: int
  now :: int
  random36 :: string
  uuid :: string
  newBookingId :: string
  commitOk :: "nat \<Rightarrow> bool"
  cacheDelOk :: bool
  addJobOk :: bool
  snsOk :: bool

definition defaultEnv :: Env where
  "defaultEnv = \<lparr> maxConcurrentBookingsPerUser = 5, maxBookingAdvanceDays = 90,
     cancellationWindowHours = 24, now = 0, random36 = ''k3x9'',
     uuid = ''3f2a9c1e-7b4d-4e8a-9c0f-5d6e7f8a9b0c'', newBookingId = ''b1'',
     commitOk = (\<lambda>n. True), cacheDelOk = True, addJobOk = True, snsOk = True \<rparr>"

section \<open>The key-value store and the lock manager (utils/redis.ts)\<close>

text \<open>
  The store maps a key to its value and, when the key was set with \<^verbatim>\<open>PX\<close> or
  \<^verbatim>\<open>EX\<close>, the instant at which it expires. A key that has expired is absent for
  every command.
\<close>

record RedisEntry =
  r_value :: string
  r_expiresAt :: "int option"

type_synonym Redis = "string \<rightharpoonup> RedisEntry"

definition redis_get :: "int \<Rightarrow> Redis \<Rightarrow> string \<Rightarrow> string option" where
  "redis_get t r k =
     (case r k of
        None \<Rightarrow> None
      | Some e \<Rightarrow>
          (case r_expiresAt e of
             None \<Rightarrow> Some (r_value e)
           | Some x \<Rightarrow> if x \<le> t then None else Some (r_value e)))"

definition redis_del :: "Redis \<Rightarrow> string \<Rightarrow> Redis" where
  "redis_del r k = r(k := None)"

definition digit_char :: "nat \<Rightarrow> char" where
  "digit_char d = char_of (48 + d)"

function show_nat :: "nat \<Rightarrow> string" where
  "show_nat n = (if n < 10 then [digit_char n] else show_nat (n div 10) @ [digit_char (n mod 10)])"
  by pat_completeness auto
termination
  by (relation "measure (\<lambda>n. n)") auto

declare show_nat.simps [simp del]

definition show_int :: "int \<Rightarrow> string" where
  "show_int i = (if i < 0 then CHR ''-'' # show_nat (nat (- i)) else show_nat (nat i))"

text \<open>
  \<^verbatim>\<open>acquireLock\<close>: the token is \<^verbatim>\<open>lock:<Date.now()>:<random>\<close>; the key
  \<^verbatim>\<open>lock:<key>\<close> is set with \<^verbatim>\<open>PX ttlMs NX\<close>, that is only when it is absent.
\<close>

definition acquireLock :: "Env \<Rightarrow> string \<Rightarrow> int \<Rightarrow> Redis \<Rightarrow> string option \<times> Redis" where
  "acquireLock env key ttlMs r =
     (let lockId = ''lock:'' @ show_int (now env) @ '':'' @ random36 env;
          k = ''lock:'' @ key
      in case redis_get (now env) r k of
           None \<Rightarrow> (Some lockId, r(k \<mapsto> \<lparr> r_value = lockId, r_expiresAt = Some (now env + ttlMs) \<rparr>))
         | Some v \<Rightarrow> (None, r))"

text \<open>
  \<^verbatim>\<open>releaseLock\<close> runs one script on the store: if \<^verbatim>\<open>get KEYS[1]\<close> equals
  \<^verbatim>\<open>ARGV[1]\<close> it returns \<^verbatim>\<open>del KEYS[1]\<close> (1, the key exists), otherwise 0; the
  method returns \<^verbatim>\<open>result === 1\<close>. The script is one step of the store.
\<close>

definition releaseLock :: "int \<Rightarrow> string \<Rightarrow> string \<Rightarrow> Redis \<Rightarrow> bool \<times> Redis" where
  "releaseLock t key lockId r =
     (let k = ''lock:'' @ key;
          script = (if redis_get t r k = Some lockId then (1::int, redis_del r k) else (0, r))
      in (fst script = 1, snd script))"

section \<open>Entity behaviour\<close>

text \<open>\<^verbatim>\<open>Slot.isAvailable\<close>, \<^verbatim>\<open>Slot.isPast\<close>, \<^verbatim>\<open>Slot.canAccommodate\<close>.\<close>

definition isAvailable :: "Slot \<Rightarrow> bool" where
  "isAvailable s = (s_status s = AVAILABLE \<and> remainingCapacity s > 0)"

definition isPast :: "Env \<Rightarrow> Slot \<Rightarrow> bool" where
  "isPast env s = (endTime s < now env)"

definition canAccommodate :: "Slot \<Rightarrow> int \<Rightarrow> bool" where
  "canAccommodate s g = (isAvailable s \<and> remainingCapacity s \<ge> g)"

text \<open>
  \<^verbatim>\<open>Booking.generateConfirmationCode\<close> (a \<^verbatim>\<open>BeforeInsert\<close> hook): when the code is
  empty, the dashes of a fresh \<^verbatim>\<open>uuidv4()\<close> are removed, the first 8 characters are
  kept and upper-cased, and \<^verbatim>\<open>RSV-\<close> is put in front.
\<close>

definition toUpperChar :: "char \<Rightarrow> char" where
  "toUpperChar c =
     (let n = (of_char c :: nat)
      in if 97 \<le> n \<and> n \<le> 122 then char_of (n - 32) else c)"

definition toUpperCase :: "string \<Rightarrow> string" where
  "toUpperCase s = map toUpperChar s"

definition generateConfirmationCode :: "Env \<Rightarrow> Booking \<Rightarrow> Booking" where
  "generateConfirmationCode env b =
     (if confirmationCode b = [] then
        (let raw = toUpperCase (take 8 (filter (\<lambda>c. c \<noteq> CHR ''-'') (uuid env)))
         in b\<lparr> confirmationCode := ''RSV-'' @ raw \<rparr>)
      else b)"

text \<open>
  \<^verbatim>\<open>Booking.isCancellable\<close>. The getter computes \<^verbatim>\<open>cutoff\<close> (the clock plus the
  window; \<^verbatim>\<open>setHours\<close> is taken in a zone without clock changes) and returns
  \<^verbatim>\<open>true\<close> without reading it.
\<close>

definition isCancellable :: "Env \<Rightarrow> Booking \<Rightarrow> bool" where
  "isCancellable env b =
     (if b_status b = CANCELLED \<or> b_status b = COMPLETED then False
      else (let cutoff = now env + cancellationWindowHours env * 3600000 in True))"

section \<open>The stores\<close>

text \<open>
  The relational tables, the key-value store, the job queue, the notifications handed to
  SNS, the events published on the in-process bus, and a log of the transaction commands
  issued to the storage engine.
\<close>

datatype TxEvent = TxBegin | TxCommit | TxRollback

datatype NotificationType = BOOKING_CONFIRMED | BOOKING_CANCELLED

record Job =
  j_name :: string
  j_data :: "(string \<times> string) list"

record Notification =
  n_type :: NotificationType
  n_userId :: string
  n_data :: "(string \<times> string) list"

record SlotUpdate =
  su_slotId :: string
  su_venueId :: string
  su_status :: SlotStatus
  su_remainingCapacity :: int

record State =
  users :: "string \<rightharpoonup> User"
  slots :: "string \<rightharpoonup> Slot"
  bookings :: "Booking list"
  redis :: Redis
  jobs :: "Job list"
  notifications :: "Notification list"
  published :: "SlotUpdate list"
  txLog :: "TxEvent list"

text \<open>
  Writes. A booking is inserted under a primary key and a unique
  \<^verbatim>\<open>confirmation_code\<close>. A saved slot must satisfy the table's \<^verbatim>\<open>@Check\<close>
  constraints; of the three constrained columns the paths below write only
  \<^verbatim>\<open>remaining_capacity\<close>, so that is the one checked. An existing booking is
  updated in place.

  \<^verbatim>\<open>cancelBooking\<close> saves the booking entity it loaded with
  \<^verbatim>\<open>relations: ['slot']\<close>. The \<^verbatim>\<open>slot\<close> relation and the non-nullable
  \<^verbatim>\<open>slot_id\<close> column share one join column, so when the relation was loaded as
  null (no slot row) the update writes \<^verbatim>\<open>slot_id = NULL\<close> and the column
  rejects it. A property of the entity that is undefined is not written: the column
  keeps the value it had when the entity was loaded.
\<close>

definition insertBooking :: "Booking \<Rightarrow> Booking list \<Rightarrow> InfraFailure + Booking list" where
  "insertBooking b bs =
     (if list_ex (\<lambda>x. b_id x = b_id b \<or> confirmationCode x = confirmationCode b) bs
      then Inl UniqueViolation else Inr (bs @ [b]))"

definition updateBooking :: "Booking \<Rightarrow> Booking list \<Rightarrow> Booking list" where
  "updateBooking b bs = map (\<lambda>x. if b_id x = b_id b then b else x) bs"

definition saveLoadedBooking ::
  "Booking \<Rightarrow> Booking \<Rightarrow> Slot option \<Rightarrow> Booking list \<Rightarrow> InfraFailure + Booking list" where
  "saveLoadedBooking booking loaded slotRelation bs =
     (case slotRelation of
        None \<Rightarrow> Inl NotNullViolation
      | Some s \<Rightarrow>
          Inr (updateBooking
                 (booking\<lparr> cancellationReason :=
                             (case cancellationReason booking of
                                None \<Rightarrow> cancellationReason loaded
                              | Some reason \<Rightarrow> Some reason) \<rparr>) bs))"

definition slotChecks :: "Slot \<Rightarrow> bool" where
  "slotChecks s = (remainingCapacity s \<ge> 0)"

definition saveSlot ::
  "string \<Rightarrow> Slot \<Rightarrow> (string \<rightharpoonup> Slot) \<Rightarrow> InfraFailure + (string \<rightharpoonup> Slot)" where
  "saveSlot sid s m = (if slotChecks s then Inr (m(sid \<mapsto> s)) else Inl CheckViolation)"

text \<open>
  The collaborators called after the commit. \<^verbatim>\<open>invalidateSlotCache\<close> deletes
  \<^verbatim>\<open>slots:<venueId>:<date>\<close> and \<^verbatim>\<open>QueueService.addJob\<close> appends a job; either
  can throw when its backing store is unreachable. \<^verbatim>\<open>NotificationService.send\<close>
  catches every failure of its own (``notifications should not break the booking
  flow'') and so returns normally whether or not the message went out.
\<close>

definition invalidateSlotCache :: "Env \<Rightarrow> string \<Rightarrow> string \<Rightarrow> Redis \<Rightarrow> InfraFailure + Redis" where
  "invalidateSlotCache env venueId date r =
     (let cacheKey = ''slots:'' @ venueId @ '':'' @ date
      in if cacheDelOk env then Inr (redis_del r cacheKey) else Inl CacheFailure)"

definition addJob :: "Env \<Rightarrow> string \<Rightarrow> (string \<times> string) list \<Rightarrow> Job list \<Rightarrow> InfraFailure + Job list" where
  "addJob env name data js =
     (if addJobOk env then Inr (js @ [\<lparr> j_name = name, j_data = data \<rparr>]) else Inl QueueFailure)"

definition send :: "Env \<Rightarrow> Notification \<Rightarrow> Notification list \<Rightarrow> Notification list" where
  "send env n ns = (if snsOk env then ns @ [n] else ns)"

text \<open>
  The query runner. \<^verbatim>\<open>rollbackTransaction\<close> on a runner whose transaction is no
  longer active (it was committed) throws \<^verbatim>\<open>TransactionNotStartedError\<close>; the
  \<^verbatim>\<open>catch\<close> block of both service methods is
  \<^verbatim>\<open>await queryRunner.rollbackTransaction(); throw error;\<close>.
\<close>

definition rollbackTransaction :: "bool \<Rightarrow> State \<Rightarrow> InfraFailure + State" where
  "rollbackTransaction isTransactionActive st =
     (if isTransactionActive then Inr (st\<lparr> txLog := txLog st @ [TxRollback] \<rparr>)
      else Inl TransactionNotStartedError)"

definition catchBlock :: "Error \<Rightarrow> bool \<Rightarrow> State \<Rightarrow> Error \<times> State" where
  "catchBlock error isTransactionActive st =
     (case rollbackTransaction isTransactionActive st of
        Inl f \<Rightarrow> (InfraError f, st)
      | Inr st' \<Rightarrow> (error, st'))"

section \<open>BookingService.createBooking\<close>

record CreateBookingInput =
  cb_userId :: string
  cb_slotId :: string
  cb_venueId :: string
  cb_guestCount :: int
  cb_notes :: "string option"

text \<open>
  The statements of the \<^verbatim>\<open>try\<close> block up to the commit: the user check, the
  concurrent-booking cap, the slot read under the row lock, the five precondition checks
  in the order of the source, the insertion of the booking and the capacity debit. The
  result is the first error thrown, or the booking and the slot as written inside the
  transaction together with the tables as they will be once it commits.
  \<^verbatim>\<open>maxDate.setDate(getDate() + n)\<close> is taken in a zone without clock changes.
\<close>

definition createBooking_transaction ::
  "Env \<Rightarrow> CreateBookingInput \<Rightarrow> State \<Rightarrow> Error + (Booking \<times> Slot \<times> State)" where
  "createBooking_transaction env inp st =
     (case users st (cb_userId inp) of
        None \<Rightarrow> Inl (BookingError USER_NOT_FOUND 404)
      | Some user \<Rightarrow>
          if \<not> isActive user then Inl (BookingError USER_NOT_FOUND 404)
          else
            let activeBookings =
                  int (length (filter (\<lambda>b. b_userId b = cb_userId inp \<and> b_status b = CONFIRMED)
                                 (bookings st)));
                maxConcurrent = maxConcurrentBookingsPerUser env
            in if activeBookings \<ge> maxConcurrent then Inl (BookingError MAX_BOOKINGS_REACHED 429)
               else
                 (case slots st (cb_slotId inp) of
                    None \<Rightarrow> Inl (BookingError SLOT_NOT_FOUND 404)
                  | Some slot \<Rightarrow>
                      if s_status slot = BLOCKED then Inl (bookingError SLOT_BLOCKED)
                      else if \<not> canAccommodate slot (cb_guestCount inp)
                        then Inl (bookingError INSUFFICIENT_CAPACITY)
                      else if isPast env slot then Inl (bookingError SLOT_IN_PAST)
                      else
                        let maxAdvanceDays = maxBookingAdvanceDays env;
                            maxDate = now env + maxAdvanceDays * 86400000
                        in if startTime slot > maxDate
                             then Inl (bookingError ADVANCE_LIMIT_EXCEEDED)
                           else
                             (case find (\<lambda>b. b_userId b = cb_userId inp
                                              \<and> b_slotId b = cb_slotId inp
                                              \<and> b_status b = CONFIRMED) (bookings st) of
                                Some existingBooking \<Rightarrow> Inl (BookingError DUPLICATE_BOOKING 409)
                              | None \<Rightarrow>
                                  let booking = generateConfirmationCode env
                                        \<lparr> b_id = newBookingId env,
                                          b_userId = cb_userId inp,
                                          b_slotId = cb_slotId inp,
                                          b_venueId = cb_venueId inp,
                                          confirmationCode = [],
                                          b_status = CONFIRMED,
                                          guestCount = cb_guestCount inp,
                                          b_notes = cb_notes inp,
                                          bookingDate = s_date slot,
                                          cancelledAt = None,
                                          cancellationReason = None,
                                          confirmedAt = Some (now env),
                                          completedAt = None \<rparr>
                                  in (case insertBooking booking (bookings st) of
                                        Inl f \<Rightarrow> Inl (InfraError f)
                                      | Inr bookings' \<Rightarrow>
                                          let rc = remainingCapacity slot - cb_guestCount inp;
                                              slot' = slot\<lparr> remainingCapacity := rc,
                                                            s_status := (if rc = 0 then BOOKED
                                                                         else s_status slot) \<rparr>
                                          in (case saveSlot (cb_slotId inp) slot' (slots st) of
                                                Inl f \<Rightarrow> Inl (InfraError f)
                                              | Inr slots' \<Rightarrow>
                                                  Inr (booking, slot',
                                                       st\<lparr> bookings := bookings',
                                                           slots := slots' \<rparr>))))))"

text \<open>
  The statements after \<^verbatim>\<open>commitTransaction\<close>, still inside the \<^verbatim>\<open>try\<close> block:
  cache invalidation, the \<^verbatim>\<open>booking:confirmed\<close> job, the notification (without
  the rendered start time), and the \<^verbatim>\<open>return\<close>. An exception of the first two
  leaves the block.
\<close>

definition createBooking_postCommit ::
  "Env \<Rightarrow> CreateBookingInput \<Rightarrow> Booking \<Rightarrow> Slot \<Rightarrow> State \<Rightarrow> (Error + Booking) \<times> State" where
  "createBooking_postCommit env inp booking slot st =
     (case invalidateSlotCache env (cb_venueId inp) (s_date slot) (redis st) of
        Inl f \<Rightarrow> (Inl (InfraError f), st)
      | Inr r \<Rightarrow>
          let st1 = st\<lparr> redis := r \<rparr>
          in (case addJob env ''booking:confirmed''
                     [(''bookingId'', b_id booking), (''userId'', cb_userId inp),
                      (''confirmationCode'', confirmationCode booking)] (jobs st1) of
                Inl f \<Rightarrow> (Inl (InfraError f), st1)
              | Inr js \<Rightarrow>
                  let st2 = st1\<lparr> jobs := js \<rparr>;
                      st3 = st2\<lparr> notifications :=
                              send env \<lparr> n_type = BOOKING_CONFIRMED, n_userId = cb_userId inp,
                                         n_data = [(''bookingId'', b_id booking),
                                                   (''confirmationCode'', confirmationCode booking),
                                                   (''date'', s_date slot)] \<rparr>
                                (notifications st2) \<rparr>
                  in (Inr booking, st3)))"

text \<open>
  The \<^verbatim>\<open>try\<close> block as a whole. Its result comes with the runner's
  \<^verbatim>\<open>isTransactionActive\<close> at the moment the block is left. The method issues
  one \<^verbatim>\<open>commitTransaction\<close>, the one numbered 0.
\<close>

definition createBooking_try ::
  "Env \<Rightarrow> CreateBookingInput \<Rightarrow> State \<Rightarrow> (Error + Booking) \<times> bool \<times> State" where
  "createBooking_try env inp st =
     (case createBooking_transaction env inp st of
        Inl e \<Rightarrow> (Inl e, True, st)
      | Inr (booking, slot, st') \<Rightarrow>
          if commitOk env 0 then
            (let (res, st'') = createBooking_postCommit env inp booking slot
                                 (st'\<lparr> txLog := txLog st' @ [TxCommit] \<rparr>)
             in (res, False, st''))
          else (Inl (InfraError CommitFailure), True, st))"

text \<open>
  The method: lock, transaction, \<^verbatim>\<open>try\<close>, \<^verbatim>\<open>catch\<close>, and the \<^verbatim>\<open>finally\<close>
  block that releases the lock with the token it was acquired with.
\<close>

definition createBooking ::
  "Env \<Rightarrow> CreateBookingInput \<Rightarrow> State \<Rightarrow> (Error + Booking) \<times> State" where
  "createBooking env inp st =
     (let lockKey = ''booking:slot:'' @ cb_slotId inp
      in case acquireLock env lockKey 15000 (redis st) of
           (None, r) \<Rightarrow> (Inl (BookingError SLOT_LOCKED 409), st\<lparr> redis := r \<rparr>)
         | (Some lockId, r) \<Rightarrow>
             let st0 = st\<lparr> redis := r, txLog := txLog st @ [TxBegin] \<rparr>;
                 (res, isTransactionActive, st1) = createBooking_try env inp st0;
                 (res', st2) =
                    (case res of
                       Inr booking \<Rightarrow> (Inr booking, st1)
                     | Inl error \<Rightarrow>
                         (let (e, s) = catchBlock error isTransactionActive st1 in (Inl e, s)));
                 st3 = st2\<lparr> redis := snd (releaseLock (now env) lockKey lockId (redis st2)) \<rparr>
             in (res', st3))"

section \<open>BookingService.cancelBooking\<close>

record CancelBookingInput =
  cx_bookingId :: string
  cx_userId :: string
  cx_reason :: "string option"

text \<open>
  The \<^verbatim>\<open>try\<close> block of the method, for the booking that passed the three checks
  and the \<^verbatim>\<open>slot\<close> relation that was loaded with it: the booking is marked
  cancelled and saved, the slot row is read under the row lock and, when it exists,
  credited and saved; then the commit and the calls after it. The entity returned is the
  one in memory, whose \<^verbatim>\<open>cancellationReason\<close> is the request's reason.
\<close>

definition cancelBooking_try ::
  "Env \<Rightarrow> CancelBookingInput \<Rightarrow> Booking \<Rightarrow> Slot option \<Rightarrow> State
     \<Rightarrow> (Error + Booking) \<times> bool \<times> State" where
  "cancelBooking_try env inp booking0 slotRelation st =
     (let booking = booking0\<lparr> b_status := CANCELLED, cancelledAt := Some (now env),
                               cancellationReason := cx_reason inp \<rparr>
      in case saveLoadedBooking booking booking0 slotRelation (bookings st) of
           Inl f \<Rightarrow> (Inl (InfraError f), True, st)
         | Inr bookings' \<Rightarrow>
      (let saved =
            (case slots st (b_slotId booking) of
               None \<Rightarrow> Inr (slots st)
             | Some slot \<Rightarrow>
                 let rc = remainingCapacity slot + guestCount booking;
                     slot' = slot\<lparr> remainingCapacity := rc,
                                   s_status := (if s_status slot = BOOKED \<and> rc > 0 then AVAILABLE
                                                else s_status slot) \<rparr>
                 in saveSlot (b_slotId booking) slot' (slots st))
      in case saved of
           Inl f \<Rightarrow> (Inl (InfraError f), True, st)
         | Inr slots' \<Rightarrow>
             if \<not> commitOk env 0 then (Inl (InfraError CommitFailure), True, st)
             else
               let st1 = st\<lparr> bookings := bookings', slots := slots',
                              txLog := txLog st @ [TxCommit] \<rparr>
               in (case invalidateSlotCache env (b_venueId booking) (bookingDate booking)
                          (redis st1) of
                     Inl f \<Rightarrow> (Inl (InfraError f), False, st1)
                   | Inr r \<Rightarrow>
                       let st2 = st1\<lparr> redis := r \<rparr>
                       in (case addJob env ''booking:cancelled''
                                  [(''bookingId'', b_id booking), (''userId'', cx_userId inp),
                                   (''slotId'', b_slotId booking)] (jobs st2) of
                             Inl f \<Rightarrow> (Inl (InfraError f), False, st2)
                           | Inr js \<Rightarrow>
                               let st3 = st2\<lparr> jobs := js \<rparr>;
                                   st4 = st3\<lparr> notifications :=
                                           send env \<lparr> n_type = BOOKING_CANCELLED,
                                                      n_userId = cx_userId inp,
                                                      n_data = [(''bookingId'', b_id booking),
                                                                (''confirmationCode'',
                                                                 confirmationCode booking)] \<rparr>
                                             (notifications st3) \<rparr>
                               in (Inr booking, False, st4)))))"

text \<open>
  The method: \<^verbatim>\<open>findOne\<close> loads the booking together with its \<^verbatim>\<open>slot\<close>
  relation (null when no slot row has the booking's \<^verbatim>\<open>slotId\<close>), then the three
  checks, the transaction, \<^verbatim>\<open>try\<close> and \<^verbatim>\<open>catch\<close>.
\<close>

definition cancelBooking ::
  "Env \<Rightarrow> CancelBookingInput \<Rightarrow> State \<Rightarrow> (Error + Booking) \<times> State" where
  "cancelBooking env inp st =
     (case find (\<lambda>b. b_id b = cx_bookingId inp) (bookings st) of
        None \<Rightarrow> (Inl (BookingError BOOKING_NOT_FOUND 404), st)
      | Some booking \<Rightarrow>
          let slotRelation = slots st (b_slotId booking)
          in
          if b_userId booking \<noteq> cx_userId inp then (Inl (BookingError UNAUTHORIZED 403), st)
          else if \<not> isCancellable env booking
            then (Inl (bookingError CANCELLATION_NOT_ALLOWED), st)
          else
            let st0 = st\<lparr> txLog := txLog st @ [TxBegin] \<rparr>;
                (res, isTransactionActive, st1) =
                   cancelBooking_try env inp booking slotRelation st0
            in (case res of
                  Inr b \<Rightarrow> (Inr b, st1)
                | Inl error \<Rightarrow>
                    (let (e, s) = catchBlock error isTransactionActive st1 in (Inl e, s))))"

section \<open>Resolvers (schema/resolvers.ts) and their guards (middleware/auth.ts)\<close>

record AuthPayload =
  a_userId :: string
  a_email :: string
  a_role :: UserRole

record AuthenticatedContext =
  user :: "AuthPayload option"
  isAuthenticated :: bool

datatype GqlCode = Code ErrorCode | INTERNAL_SERVER_ERROR | NOT_FOUND

datatype ResolverError =
    GraphQLError GqlCode "nat option"
  | AuthenticationRequired
  | InsufficientPermissions

definition requireAuth :: "AuthenticatedContext \<Rightarrow> ResolverError + AuthPayload" where
  "requireAuth context =
     (case user context of
        None \<Rightarrow> Inl AuthenticationRequired
      | Some u \<Rightarrow> if \<not> isAuthenticated context then Inl AuthenticationRequired else Inr u)"

definition requireRole :: "AuthenticatedContext \<Rightarrow> UserRole list \<Rightarrow> ResolverError + AuthPayload" where
  "requireRole context roles =
     (case requireAuth context of
        Inl e \<Rightarrow> Inl e
      | Inr u \<Rightarrow> if a_role u \<notin> set roles then Inl InsufficientPermissions else Inr u)"

definition handleError :: "Error \<Rightarrow> ResolverError" where
  "handleError error =
     (case error of
        BookingError code statusCode \<Rightarrow> GraphQLError (Code code) (Some statusCode)
      | InfraError f \<Rightarrow> GraphQLError INTERNAL_SERVER_ERROR None)"

record CancelBookingArgs =
  ca_bookingId :: string
  ca_reason :: "string option"

text \<open>
  \<^verbatim>\<open>Mutation.cancelBooking\<close>: the service is called with the caller's own
  \<^verbatim>\<open>userId\<close>; the caller's role is not passed on.
\<close>

definition mutation_cancelBooking ::
  "Env \<Rightarrow> AuthenticatedContext \<Rightarrow> CancelBookingArgs \<Rightarrow> State \<Rightarrow> (ResolverError + Booking) \<times> State" where
  "mutation_cancelBooking env ctx input st =
     (case requireAuth ctx of
        Inl e \<Rightarrow> (Inl e, st)
      | Inr u \<Rightarrow>
          (case cancelBooking env \<lparr> cx_bookingId = ca_bookingId input, cx_userId = a_userId u,
                                    cx_reason = ca_reason input \<rparr> st of
             (Inl error, st') \<Rightarrow> (Inl (handleError error), st')
           | (Inr booking, st') \<Rightarrow>
               (case slots st' (b_slotId booking) of
                  None \<Rightarrow> (Inr booking, st')
                | Some slot \<Rightarrow>
                    (Inr booking,
                     st'\<lparr> published := published st' @
                            [\<lparr> su_slotId = b_slotId booking, su_venueId = s_venueId slot,
                               su_status = s_status slot,
                               su_remainingCapacity = remainingCapacity slot \<rparr>] \<rparr>))))"

text \<open>
  \<^verbatim>\<open>Mutation.blockSlot\<close> and \<^verbatim>\<open>Mutation.unblockSlot\<close> write the slot through the
  repository, outside the booking service.
\<close>

definition mutation_blockSlot ::
  "AuthenticatedContext \<Rightarrow> string \<Rightarrow> string option \<Rightarrow> State \<Rightarrow> (ResolverError + Slot) \<times> State" where
  "mutation_blockSlot ctx slotId reason st =
     (case requireRole ctx [ADMIN] of
        Inl e \<Rightarrow> (Inl e, st)
      | Inr u \<Rightarrow>
          (case slots st slotId of
             None \<Rightarrow> (Inl (GraphQLError NOT_FOUND None), st)
           | Some slot \<Rightarrow>
               let slot' = slot\<lparr> s_status := BLOCKED,
                                 s_metadata := (s_metadata slot)
                                    (''blockReason'' := reason, ''blockedBy'' \<mapsto> a_userId u) \<rparr>
               in (Inr slot', st\<lparr> slots := (slots st)(slotId \<mapsto> slot') \<rparr>)))"

definition mutation_unblockSlot ::
  "AuthenticatedContext \<Rightarrow> string \<Rightarrow> State \<Rightarrow> (ResolverError + Slot) \<times> State" where
  "mutation_unblockSlot ctx slotId st =
     (case requireRole ctx [ADMIN] of
        Inl e \<Rightarrow> (Inl e, st)
      | Inr u \<Rightarrow>
          (case slots st slotId of
             None \<Rightarrow> (Inl (GraphQLError NOT_FOUND None), st)
           | Some slot \<Rightarrow>
               let slot' = slot\<lparr> s_status := AVAILABLE \<rparr>
               in (Inr slot', st\<lparr> slots := (slots st)(slotId \<mapsto> slot') \<rparr>)))"

section \<open>Concrete stores and requests\<close>

text \<open>A store in which the lock of slot \<open>s1\<close> is held until instant 15000.\<close>

definition heldStore :: Redis where
  "heldStore =
     [''lock:booking:slot:s1'' \<mapsto> \<lparr> r_value = ''lock:0:k3x9'', r_expiresAt = Some 15000 \<rparr>]"

text \<open>
  The shape of what \<^verbatim>\<open>uuidv4()\<close> returns: five groups of 8, 4, 4, 4 and 12
  lower-case hexadecimal digits, separated by dashes.
\<close>

definition isLowerHex :: "char \<Rightarrow> bool" where
  "isLowerHex c = (c \<in> set ''0123456789abcdef'')"

definition isUpperHex :: "char \<Rightarrow> bool" where
  "isUpperHex c = (c \<in> set ''0123456789ABCDEF'')"

definition isUuid :: "string \<Rightarrow> bool" where
  "isUuid u =
     (length u = 36
      \<and> list_all isLowerHex (take 8 u) \<and> u ! 8 = CHR ''-''
      \<and> list_all isLowerHex (take 4 (drop 9 u)) \<and> u ! 13 = CHR ''-''
      \<and> list_all isLowerHex (take 4 (drop 14 u)) \<and> u ! 18 = CHR ''-''
      \<and> list_all isLowerHex (take 4 (drop 19 u)) \<and> u ! 23 = CHR ''-''
      \<and> list_all isLowerHex (drop 24 u))"

text \<open>
  A member books the one place of slot \<open>s1\<close>, which starts two days after the clock
  reading 0 of \<open>defaultEnv\<close>.
\<close>

definition slot1 :: Slot where
  "slot1 = \<lparr> s_venueId = ''v1'', s_date = ''2026-01-10'', startTime = 172800000,
     endTime = 176400000, capacity = 1, remainingCapacity = 1, s_status = AVAILABLE,
     s_metadata = Map.empty, heldUntil = None \<rparr>"

definition state1 :: State where
  "state1 = \<lparr> users = [''u1'' \<mapsto> \<lparr> u_role = MEMBER, isActive = True \<rparr>],
     slots = [''s1'' \<mapsto> slot1], bookings = [], redis = Map.empty, jobs = [],
     notifications = [], published = [], txLog = [] \<rparr>"

definition request1 :: CreateBookingInput where
  "request1 = \<lparr> cb_userId = ''u1'', cb_slotId = ''s1'', cb_venueId = ''v1'',
     cb_guestCount = 1, cb_notes = None \<rparr>"

definition booking1 :: Booking where
  "booking1 = \<lparr> b_id = ''b1'', b_userId = ''u1'', b_slotId = ''s1'', b_venueId = ''v1'',
     confirmationCode = ''RSV-3F2A9C1E'', b_status = CONFIRMED, guestCount = 1,
     b_notes = None, bookingDate = ''2026-01-10'', cancelledAt = None,
     cancellationReason = None, confirmedAt = Some 0, completedAt = None \<rparr>"

text \<open>The stores after that booking, the owner's cancellation request, and its result.\<close>

definition state1_booked :: State where
  "state1_booked = \<lparr> users = [''u1'' \<mapsto> \<lparr> u_role = MEMBER, isActive = True \<rparr>],
     slots = [''s1'' \<mapsto> slot1\<lparr> remainingCapacity := 0, s_status := BOOKED \<rparr>],
     bookings = [booking1], redis = Map.empty,
     jobs = [\<lparr> j_name = ''booking:confirmed'',
               j_data = [(''bookingId'', ''b1''), (''userId'', ''u1''),
                         (''confirmationCode'', ''RSV-3F2A9C1E'')] \<rparr>],
     notifications = [\<lparr> n_type = BOOKING_CONFIRMED, n_userId = ''u1'',
                        n_data = [(''bookingId'', ''b1''), (''confirmationCode'', ''RSV-3F2A9C1E''),
                                  (''date'', ''2026-01-10'')] \<rparr>],
     published = [], txLog = [TxBegin, TxCommit] \<rparr>"

definition cancel1 :: CancelBookingInput where
  "cancel1 = \<lparr> cx_bookingId = ''b1'', cx_userId = ''u1'', cx_reason = None \<rparr>"

definition booking1_cancelled :: Booking where
  "booking1_cancelled = booking1\<lparr> b_status := CANCELLED, cancelledAt := Some 0 \<rparr>"

text \<open>The slot as \<^verbatim>\<open>cancelBooking\<close> saves it after crediting \<open>g\<close> places.\<close>

definition creditedSlot :: "Slot \<Rightarrow> int \<Rightarrow> Slot" where
  "creditedSlot slot g =
     slot\<lparr> remainingCapacity := remainingCapacity slot + g,
           s_status := (if s_status slot = BOOKED \<and> remainingCapacity slot + g > 0 then AVAILABLE
                        else s_status slot) \<rparr>"

text \<open>
  The same confirmed booking on a slot that starts 12 hours after the clock reading, that
  is inside the 24-hour cancellation window.
\<close>

definition slot12h :: Slot where
  "slot12h = slot1\<lparr> startTime := 43200000, endTime := 46800000, remainingCapacity := 0,
                     s_status := BOOKED \<rparr>"

definition state12h :: State where
  "state12h = state1_booked\<lparr> slots := [''s1'' \<mapsto> slot12h] \<rparr>"

text \<open>An environment whose first commit meets a serialization conflict and whose later
  commits would all succeed.\<close>

definition conflictEnv :: Env where
  "conflictEnv = defaultEnv\<lparr> commitOk := (\<lambda>n. 0 < n) \<rparr>"

text \<open>Callers: the owner of \<open>booking1\<close>, and an administrator who does not own it.\<close>

definition ownerCtx :: AuthenticatedContext where
  "ownerCtx = \<lparr> user = Some \<lparr> a_userId = ''u1'', a_email = ''u1@example.org'', a_role = MEMBER \<rparr>,
                isAuthenticated = True \<rparr>"

definition adminCtx :: AuthenticatedContext where
  "adminCtx = \<lparr> user = Some \<lparr> a_userId = ''root'', a_email = ''root@example.org'', a_role = ADMIN \<rparr>,
                isAuthenticated = True \<rparr>"

definition cancelArgs1 :: CancelBookingArgs where
  "cancelArgs1 = \<lparr> ca_bookingId = ''b1'', ca_reason = None \<rparr>"

text \<open>A held slot with five free places, and a request for two of them.\<close>

definition stateHeld :: State where
  "stateHeld = state1\<lparr> slots := [''s1'' \<mapsto> slot1\<lparr> capacity := 5, remainingCapacity := 5,
                                                  s_status := HELD \<rparr>] \<rparr>"

definition requestHeld :: CreateBookingInput where
  "requestHeld = request1\<lparr> cb_guestCount := 2 \<rparr>"

text \<open>
  The consistency of status and capacity (property P4 of the specification): outside
  \<open>BLOCKED\<close>, a slot is \<open>BOOKED\<close> exactly when nothing remains.
\<close>

definition statusCapacityConsistent :: "Slot \<Rightarrow> bool" where
  "statusCapacityConsistent s =
     (s_status s = BLOCKED \<or> (s_status s = BOOKED \<longleftrightarrow> remainingCapacity s = 0))"


section \<open>The lock manager\<close>

lemma releaseLock_fst:
  "fst (releaseLock t key lockId r) = (redis_get t r (''lock:'' @ key) = Some lockId)"
  by (simp add: releaseLock_def Let_def)

lemma releaseLock_snd:
  "snd (releaseLock t key lockId r) =
     (if redis_get t r (''lock:'' @ key) = Some lockId then r((''lock:'' @ key) := None) else r)"
  by (simp add: releaseLock_def Let_def redis_del_def)

lemma redis_get_Some_present: "redis_get t r k = Some v \<Longrightarrow> r k \<noteq> None"
  by (auto simp: redis_get_def split: option.splits)

lemma redis_get_expired:
  "r k = Some e \<Longrightarrow> r_expiresAt e = Some x \<Longrightarrow> x \<le> t \<Longrightarrow> redis_get t r k = None"
  by (simp add: redis_get_def)

text \<open>
  Claim C8. For every key, lease token, instant and store: \<^verbatim>\<open>releaseLock\<close> returns
  true exactly when the current value of \<^verbatim>\<open>lock:<key>\<close> equals the token; the store
  changes exactly in that case, and the change is the deletion of that one key, made in
  the same step as the comparison. When the lease has expired the result is false, and
  when another holder's token is stored the result is false and that holder's entry is
  still there.
\<close>

theorem releaseLock_compare_and_delete:
  "(fst (releaseLock t key lockId r) \<longleftrightarrow> redis_get t r (''lock:'' @ key) = Some lockId)
   \<and> (snd (releaseLock t key lockId r) \<noteq> r \<longleftrightarrow> redis_get t r (''lock:'' @ key) = Some lockId)
   \<and> snd (releaseLock t key lockId r) =
        (if fst (releaseLock t key lockId r) then r((''lock:'' @ key) := None) else r)
   \<and> (\<forall>e x. r (''lock:'' @ key) = Some e \<and> r_expiresAt e = Some x \<and> x \<le> t
         \<longrightarrow> \<not> fst (releaseLock t key lockId r))
   \<and> (\<forall>v. redis_get t r (''lock:'' @ key) = Some v \<and> v \<noteq> lockId
         \<longrightarrow> \<not> fst (releaseLock t key lockId r)
             \<and> redis_get t (snd (releaseLock t key lockId r)) (''lock:'' @ key) = Some v)"
proof (intro conjI allI impI)
  show "fst (releaseLock t key lockId r) \<longleftrightarrow> redis_get t r (''lock:'' @ key) = Some lockId"
    by (rule releaseLock_fst)
next
  show "snd (releaseLock t key lockId r) \<noteq> r \<longleftrightarrow> redis_get t r (''lock:'' @ key) = Some lockId"
  proof
    assume "snd (releaseLock t key lockId r) \<noteq> r"
    then show "redis_get t r (''lock:'' @ key) = Some lockId"
      by (simp add: releaseLock_snd split: if_splits)
  next
    assume h: "redis_get t r (''lock:'' @ key) = Some lockId"
    then have "r (''lock:'' @ key) \<noteq> None" by (rule redis_get_Some_present)
    moreover have "snd (releaseLock t key lockId r) (''lock:'' @ key) = None"
      using h by (simp add: releaseLock_snd)
    ultimately show "snd (releaseLock t key lockId r) \<noteq> r" by metis
  qed
next
  show "snd (releaseLock t key lockId r) =
        (if fst (releaseLock t key lockId r) then r((''lock:'' @ key) := None) else r)"
    by (simp add: releaseLock_fst releaseLock_snd)
next
  fix e x
  assume "r (''lock:'' @ key) = Some e \<and> r_expiresAt e = Some x \<and> x \<le> t"
  then have "redis_get t r (''lock:'' @ key) = None" by (simp add: redis_get_expired)
  then show "\<not> fst (releaseLock t key lockId r)" by (simp add: releaseLock_fst)
next
  fix v
  assume h: "redis_get t r (''lock:'' @ key) = Some v \<and> v \<noteq> lockId"
  then show "\<not> fst (releaseLock t key lockId r)" by (simp add: releaseLock_fst)
next
  fix v
  assume h: "redis_get t r (''lock:'' @ key) = Some v \<and> v \<noteq> lockId"
  then show "redis_get t (snd (releaseLock t key lockId r)) (''lock:'' @ key) = Some v"
    by (simp add: releaseLock_snd)
qed

theorem releaseLock_compare_and_delete_witness:
  "fst (releaseLock 100 ''booking:slot:s1'' ''lock:0:k3x9'' heldStore)
   \<and> snd (releaseLock 100 ''booking:slot:s1'' ''lock:0:k3x9'' heldStore) = Map.empty
   \<and> \<not> fst (releaseLock 15000 ''booking:slot:s1'' ''lock:0:k3x9'' heldStore)
   \<and> \<not> fst (releaseLock 100 ''booking:slot:s1'' ''lock:7:zzzz'' heldStore)
   \<and> redis_get 100 (snd (releaseLock 100 ''booking:slot:s1'' ''lock:7:zzzz'' heldStore))
        ''lock:booking:slot:s1'' = Some ''lock:0:k3x9''"
proof -
  have g: "redis_get 100 heldStore (''lock:'' @ ''booking:slot:s1'') = Some ''lock:0:k3x9''"
    by (simp add: redis_get_def heldStore_def)
  have e: "heldStore (''lock:'' @ ''booking:slot:s1'')
             = Some \<lparr> r_value = ''lock:0:k3x9'', r_expiresAt = Some 15000 \<rparr>
           \<and> r_expiresAt \<lparr> r_value = ''lock:0:k3x9'', r_expiresAt = Some 15000 \<rparr> = Some 15000
           \<and> (15000::int) \<le> 15000"
    by (simp add: heldStore_def)
  have d: "''lock:0:k3x9'' \<noteq> ''lock:7:zzzz''" by simp
  have m: "heldStore((''lock:'' @ ''booking:slot:s1'') := None) = Map.empty"
    by (simp add: heldStore_def)
  note a = releaseLock_compare_and_delete [of 100 "''booking:slot:s1''" "''lock:0:k3x9''" heldStore]
  note b = releaseLock_compare_and_delete [of 15000 "''booking:slot:s1''" "''lock:0:k3x9''" heldStore]
  note c = releaseLock_compare_and_delete [of 100 "''booking:slot:s1''" "''lock:7:zzzz''" heldStore]
  have 1: "fst (releaseLock 100 ''booking:slot:s1'' ''lock:0:k3x9'' heldStore)"
    using a g by blast
  have 2: "snd (releaseLock 100 ''booking:slot:s1'' ''lock:0:k3x9'' heldStore) = Map.empty"
    using a 1 m by presburger
  have 3: "\<not> fst (releaseLock 15000 ''booking:slot:s1'' ''lock:0:k3x9'' heldStore)"
    using b e by blast
  have 4: "\<not> fst (releaseLock 100 ''booking:slot:s1'' ''lock:7:zzzz'' heldStore)
     \<and> redis_get 100 (snd (releaseLock 100 ''booking:slot:s1'' ''lock:7:zzzz'' heldStore))
        (''lock:'' @ ''booking:slot:s1'') = Some ''lock:0:k3x9''"
    using c g d by blast
  from 1 2 3 4 show ?thesis by simp
qed

section \<open>Facts about a successful createBooking\<close>

lemma createBooking_transaction_InrD:
  assumes "createBooking_transaction env inp st = Inr (b, slot', st')"
  shows "\<exists>u slot. users st (cb_userId inp) = Some u \<and> isActive u
           \<and> int (length (filter (\<lambda>b. b_userId b = cb_userId inp \<and> b_status b = CONFIRMED) (bookings st)))
                < maxConcurrentBookingsPerUser env
           \<and> slots st (cb_slotId inp) = Some slot
           \<and> s_status slot \<noteq> BLOCKED
           \<and> canAccommodate slot (cb_guestCount inp)
           \<and> \<not> isPast env slot
           \<and> \<not> startTime slot > now env + maxBookingAdvanceDays env * 86400000
           \<and> find (\<lambda>b. b_userId b = cb_userId inp \<and> b_slotId b = cb_slotId inp \<and> b_status b = CONFIRMED) (bookings st) = None
           \<and> b = generateConfirmationCode env
                  \<lparr> b_id = newBookingId env, b_userId = cb_userId inp, b_slotId = cb_slotId inp,
                    b_venueId = cb_venueId inp, confirmationCode = [], b_status = CONFIRMED,
                    guestCount = cb_guestCount inp, b_notes = cb_notes inp, bookingDate = s_date slot,
                    cancelledAt = None, cancellationReason = None, confirmedAt = Some (now env),
                    completedAt = None \<rparr>
           \<and> \<not> list_ex (\<lambda>x. b_id x = b_id b \<or> confirmationCode x = confirmationCode b) (bookings st)
           \<and> slot' = slot\<lparr> remainingCapacity := remainingCapacity slot - cb_guestCount inp,
                           s_status := (if remainingCapacity slot - cb_guestCount inp = 0 then BOOKED else s_status slot) \<rparr>
           \<and> st' = st\<lparr> bookings := bookings st @ [b], slots := (slots st)(cb_slotId inp \<mapsto> slot') \<rparr>"
  using assms unfolding createBooking_transaction_def
  by (auto simp: Let_def insertBooking_def saveSlot_def split: option.splits if_splits sum.splits)

lemma createBooking_postCommit_InrD:
  assumes "createBooking_postCommit env inp booking slot st = (Inr b, st')"
  shows "b = booking \<and> cacheDelOk env \<and> addJobOk env
         \<and> users st' = users st \<and> slots st' = slots st \<and> bookings st' = bookings st
         \<and> txLog st' = txLog st"
  using assms unfolding createBooking_postCommit_def invalidateSlotCache_def addJob_def
  by (auto simp: Let_def split: if_splits)

lemma createBooking_InrD:
  assumes "fst (createBooking env inp st) = Inr b"
  shows "\<exists>lockId r slot' stT.
           acquireLock env (''booking:slot:'' @ cb_slotId inp) 15000 (redis st) = (Some lockId, r)
         \<and> createBooking_transaction env inp (st\<lparr> redis := r, txLog := txLog st @ [TxBegin] \<rparr>)
              = Inr (b, slot', stT)
         \<and> commitOk env 0 \<and> cacheDelOk env \<and> addJobOk env
         \<and> users (snd (createBooking env inp st)) = users stT
         \<and> slots (snd (createBooking env inp st)) = slots stT
         \<and> bookings (snd (createBooking env inp st)) = bookings stT
         \<and> txLog (snd (createBooking env inp st)) = txLog st @ [TxBegin, TxCommit]"
proof -
  obtain tok r where a: "acquireLock env (''booking:slot:'' @ cb_slotId inp) 15000 (redis st) = (tok, r)"
    by (cases "acquireLock env (''booking:slot:'' @ cb_slotId inp) 15000 (redis st)")
  show ?thesis
  proof (cases tok)
    case None
    with a assms show ?thesis by (simp add: createBooking_def Let_def)
  next
    case (Some lockId)
    let ?st0 = "st\<lparr> redis := r, txLog := txLog st @ [TxBegin] \<rparr>"
    show ?thesis
    proof (cases "createBooking_transaction env inp ?st0")
      case (Inl e)
      with a Some assms show ?thesis
        by (simp add: createBooking_def createBooking_try_def Let_def catchBlock_def
              rollbackTransaction_def split: prod.splits)
    next
      case (Inr t)
      obtain bk slot' stT where t: "t = (bk, slot', stT)" by (cases t)
      have tl: "txLog stT = txLog st @ [TxBegin]"
        using createBooking_transaction_InrD [OF Inr [unfolded t]] by auto
      show ?thesis
      proof (cases "commitOk env 0")
        case False
        with a Some Inr t assms show ?thesis
          by (simp add: createBooking_def createBooking_try_def Let_def catchBlock_def
                rollbackTransaction_def split: prod.splits)
      next
        case True
        obtain res st2 where p: "createBooking_postCommit env inp bk slot'
                                  (stT\<lparr> txLog := txLog stT @ [TxCommit] \<rparr>) = (res, st2)"
          by (cases "createBooking_postCommit env inp bk slot' (stT\<lparr> txLog := txLog stT @ [TxCommit] \<rparr>)")
        show ?thesis
        proof (cases res)
          case (Inl e)
          with a Some Inr t True p assms show ?thesis
            by (simp add: createBooking_def createBooking_try_def Let_def catchBlock_def
                  rollbackTransaction_def split: prod.splits)
        next
          case (Inr b')
          note q = createBooking_postCommit_InrD [OF p [unfolded Inr]]
          have r: "createBooking env inp st
                    = (Inr b', st2\<lparr> redis := snd (releaseLock (now env) (''booking:slot:'' @ cb_slotId inp)
                                                   lockId (redis st2)) \<rparr>)"
            using a Some \<open>createBooking_transaction env inp ?st0 = Inr t\<close> t True p Inr
            by (simp add: createBooking_def createBooking_try_def Let_def)
          with assms have "b' = b" by simp
          with q r a Some \<open>createBooking_transaction env inp ?st0 = Inr t\<close> t True tl
          show ?thesis by simp
        qed
      qed
    qed
  qed
qed

section \<open>The confirmation code\<close>

lemma toUpperChar_digits:
  "toUpperChar CHR ''0'' = CHR ''0''" "toUpperChar CHR ''1'' = CHR ''1''"
  "toUpperChar CHR ''2'' = CHR ''2''" "toUpperChar CHR ''3'' = CHR ''3''"
  "toUpperChar CHR ''4'' = CHR ''4''" "toUpperChar CHR ''5'' = CHR ''5''"
  "toUpperChar CHR ''6'' = CHR ''6''" "toUpperChar CHR ''7'' = CHR ''7''"
  "toUpperChar CHR ''8'' = CHR ''8''" "toUpperChar CHR ''9'' = CHR ''9''"
  "toUpperChar CHR ''a'' = CHR ''A''" "toUpperChar CHR ''b'' = CHR ''B''"
  "toUpperChar CHR ''c'' = CHR ''C''" "toUpperChar CHR ''d'' = CHR ''D''"
  "toUpperChar CHR ''e'' = CHR ''E''" "toUpperChar CHR ''f'' = CHR ''F''"
  by code_simp+

lemma toUpperChar_hex_all:
  "list_all (\<lambda>c. isUpperHex (toUpperChar c)) ''0123456789abcdef''"
  by code_simp

lemma toUpperChar_hex: "isLowerHex c \<Longrightarrow> isUpperHex (toUpperChar c)"
  unfolding isLowerHex_def using toUpperChar_hex_all unfolding list_all_iff by blast

lemma not_dash_hex: "isLowerHex c \<Longrightarrow> c \<noteq> CHR ''-''"
  unfolding isLowerHex_def by auto

lemma filter_take_prefix:
  assumes "list_all P (take n u)"
  shows "take n (filter P u) = take n u"
proof -
  have "filter P u = filter P (take n u) @ filter P (drop n u)"
    by (metis append_take_drop_id filter_append)
  moreover have "filter P (take n u) = take n u"
    using assms by (simp add: list_all_iff)
  ultimately show ?thesis by (cases "n \<le> length u") auto
qed

lemma uuid_raw:
  assumes "isUuid u"
  shows "take 8 (filter (\<lambda>c. c \<noteq> CHR ''-'') u) = take 8 u"
proof -
  have "list_all isLowerHex (take 8 u)" using assms by (simp add: isUuid_def)
  then have "list_all (\<lambda>c. c \<noteq> CHR ''-'') (take 8 u)"
    by (simp add: list_all_iff not_dash_hex)
  then show ?thesis by (rule filter_take_prefix)
qed

lemma generateConfirmationCode_format:
  assumes "isUuid (uuid env)" and "confirmationCode b = []"
  shows "confirmationCode (generateConfirmationCode env b) = ''RSV-'' @ toUpperCase (take 8 (uuid env))"
    and "length (confirmationCode (generateConfirmationCode env b)) = 12"
    and "list_all isUpperHex (drop 4 (confirmationCode (generateConfirmationCode env b)))"
proof -
  show c: "confirmationCode (generateConfirmationCode env b) = ''RSV-'' @ toUpperCase (take 8 (uuid env))"
    using assms by (simp add: generateConfirmationCode_def Let_def uuid_raw)
  have l: "length (uuid env) = 36" using assms(1) by (simp add: isUuid_def)
  show "length (confirmationCode (generateConfirmationCode env b)) = 12"
    by (simp add: c toUpperCase_def l)
  have "list_all isLowerHex (take 8 (uuid env))" using assms(1) by (simp add: isUuid_def)
  then have "list_all isUpperHex (toUpperCase (take 8 (uuid env)))"
    by (simp add: toUpperCase_def list_all_iff toUpperChar_hex)
  then show "list_all isUpperHex (drop 4 (confirmationCode (generateConfirmationCode env b)))"
    by (simp add: c)
qed


section \<open>Evaluation of the concrete requests\<close>

lemmas create_defs =
  createBooking_def acquireLock_def redis_get_def createBooking_try_def
  createBooking_transaction_def canAccommodate_def isAvailable_def isPast_def
  generateConfirmationCode_def toUpperCase_def insertBooking_def saveSlot_def
  slotChecks_def createBooking_postCommit_def invalidateSlotCache_def addJob_def send_def
  releaseLock_def redis_del_def bookingError_def catchBlock_def rollbackTransaction_def Let_def

lemmas cancel_defs =
  cancelBooking_def cancelBooking_try_def isCancellable_def saveLoadedBooking_def
  updateBooking_def saveSlot_def
  slotChecks_def invalidateSlotCache_def addJob_def send_def redis_del_def bookingError_def
  catchBlock_def rollbackTransaction_def Let_def

lemmas scenario_defs =
  defaultEnv_def request1_def state1_def slot1_def booking1_def state1_booked_def cancel1_def
  booking1_cancelled_def

lemma createBooking_request1_full:
  "createBooking defaultEnv request1 state1 = (Inr booking1, state1_booked)"
  by (simp add: create_defs scenario_defs toUpperChar_digits)

lemma createBooking_request1:
  "fst (createBooking defaultEnv request1 state1) = Inr booking1"
  by (simp add: createBooking_request1_full)

lemma isUuid_defaultEnv: "isUuid (uuid defaultEnv)"
  by (simp add: isUuid_def defaultEnv_def isLowerHex_def)

section \<open>Facts about a successful cancelBooking\<close>

lemma cancelBooking_try_InrD:
  assumes "cancelBooking_try env inp booking rel st = (Inr b, act, st')"
  shows "b = booking\<lparr> b_status := CANCELLED, cancelledAt := Some (now env),
                      cancellationReason := cx_reason inp \<rparr>
         \<and> rel \<noteq> None
         \<and> commitOk env 0 \<and> cacheDelOk env \<and> addJobOk env
         \<and> users st' = users st
         \<and> bookings st' =
             updateBooking (b\<lparr> cancellationReason :=
                                 (case cx_reason inp of
                                    None \<Rightarrow> cancellationReason booking
                                  | Some reason \<Rightarrow> Some reason) \<rparr>) (bookings st)
         \<and> slots st' =
             (case slots st (b_slotId booking) of
                None \<Rightarrow> slots st
              | Some slot \<Rightarrow> (slots st)(b_slotId booking \<mapsto> creditedSlot slot (guestCount booking)))
         \<and> txLog st' = txLog st @ [TxCommit]"
  using assms unfolding cancelBooking_try_def invalidateSlotCache_def addJob_def saveSlot_def
    creditedSlot_def saveLoadedBooking_def
  by (auto simp: Let_def split: option.splits if_splits sum.splits)

lemma cancelBooking_InrD:
  assumes "cancelBooking env inp st = (Inr b, st')"
  shows "\<exists>booking. find (\<lambda>x. b_id x = cx_bookingId inp) (bookings st) = Some booking
         \<and> b_userId booking = cx_userId inp
         \<and> isCancellable env booking
         \<and> b = booking\<lparr> b_status := CANCELLED, cancelledAt := Some (now env),
                          cancellationReason := cx_reason inp \<rparr>
         \<and> slots st (b_slotId booking) \<noteq> None
         \<and> commitOk env 0 \<and> cacheDelOk env \<and> addJobOk env
         \<and> users st' = users st
         \<and> bookings st' =
             updateBooking (b\<lparr> cancellationReason :=
                                 (case cx_reason inp of
                                    None \<Rightarrow> cancellationReason booking
                                  | Some reason \<Rightarrow> Some reason) \<rparr>) (bookings st)
         \<and> slots st' =
             (case slots st (b_slotId booking) of
                None \<Rightarrow> slots st
              | Some slot \<Rightarrow> (slots st)(b_slotId booking \<mapsto> creditedSlot slot (guestCount booking)))
         \<and> txLog st' = txLog st @ [TxBegin, TxCommit]"
proof (cases "find (\<lambda>x. b_id x = cx_bookingId inp) (bookings st)")
  case None
  with assms show ?thesis by (simp add: cancelBooking_def)
next
  case (Some booking)
  show ?thesis
  proof (cases "b_userId booking \<noteq> cx_userId inp \<or> \<not> isCancellable env booking")
    case True
    with assms Some show ?thesis by (auto simp: cancelBooking_def split: if_splits)
  next
    case False
    let ?st0 = "st\<lparr> txLog := txLog st @ [TxBegin] \<rparr>"
    obtain res act st1 where
      t: "cancelBooking_try env inp booking (slots st (b_slotId booking)) ?st0 = (res, act, st1)"
      by (cases "cancelBooking_try env inp booking (slots st (b_slotId booking)) ?st0")
    show ?thesis
    proof (cases res)
      case (Inl e)
      with assms Some False t show ?thesis
        by (simp add: cancelBooking_def Let_def catchBlock_def rollbackTransaction_def
              split: prod.splits sum.splits if_splits)
    next
      case (Inr b')
      with assms Some False t have "b' = b" and "st1 = st'"
        by (simp_all add: cancelBooking_def Let_def)
      with cancelBooking_try_InrD [OF t [unfolded Inr]] Some False
      show ?thesis by (simp split: option.splits)
    qed
  qed
qed

lemma find_snoc_fresh:
  assumes "\<not> list_ex P xs" and "P b"
  shows "find P (xs @ [b]) = Some b"
  using assms by (induction xs) auto

lemma generateConfirmationCode_fields:
  "b_id (generateConfirmationCode env b) = b_id b"
  "b_slotId (generateConfirmationCode env b) = b_slotId b"
  "b_userId (generateConfirmationCode env b) = b_userId b"
  "guestCount (generateConfirmationCode env b) = guestCount b"
  "b_status (generateConfirmationCode env b) = b_status b"
  by (simp_all add: generateConfirmationCode_def Let_def)

section \<open>Booking and cancelling\<close>

text \<open>
  Claim C5. When \<^verbatim>\<open>createBooking\<close> with guest count \<open>g\<close> succeeds and
  \<^verbatim>\<open>cancelBooking\<close> of the booking it returned succeeds on the resulting stores, with
  no operation in between: the create debits the slot's remaining capacity by \<open>g\<close> and
  sets the status to \<open>BOOKED\<close> when it reaches 0, the cancel credits it by \<open>g\<close> and
  turns \<open>BOOKED\<close> back into \<open>AVAILABLE\<close> when it is positive, and the slot (its
  remaining capacity in particular) and the whole slot table are as before the booking.
\<close>

theorem create_then_cancel_restores_capacity:
  assumes c: "createBooking env inp st = (Inr b, st1)"
      and x: "cancelBooking env' \<lparr> cx_bookingId = b_id b, cx_userId = caller, cx_reason = why \<rparr> st1
                = (Inr b', st2)"
  shows "\<exists>s s1 s2.
           slots st (cb_slotId inp) = Some s
         \<and> slots st1 (cb_slotId inp) = Some s1
         \<and> slots st2 (cb_slotId inp) = Some s2
         \<and> remainingCapacity s1 = remainingCapacity s - cb_guestCount inp
         \<and> s_status s1 = (if remainingCapacity s1 = 0 then BOOKED else s_status s)
         \<and> remainingCapacity s2 = remainingCapacity s1 + cb_guestCount inp
         \<and> s_status s2 = (if s_status s1 = BOOKED \<and> remainingCapacity s2 > 0 then AVAILABLE
                           else s_status s1)
         \<and> remainingCapacity s2 = remainingCapacity s
         \<and> s2 = s
         \<and> slots st2 = slots st"
proof -
  from c have "fst (createBooking env inp st) = Inr b" and s1: "snd (createBooking env inp st) = st1"
    by simp_all
  from createBooking_InrD [OF this(1)] s1 obtain r slot' stT where
    t: "createBooking_transaction env inp (st\<lparr> redis := r, txLog := txLog st @ [TxBegin] \<rparr>)
          = Inr (b, slot', stT)"
    and sl: "slots st1 = slots stT" and bs: "bookings st1 = bookings stT"
    by auto
  from createBooking_transaction_InrD [OF t] obtain s b0 where
    s: "slots st (cb_slotId inp) = Some s"
    and acc: "canAccommodate s (cb_guestCount inp)"
    and b: "b = generateConfirmationCode env b0"
    and b0: "b_id b0 = newBookingId env" "b_slotId b0 = cb_slotId inp"
            "guestCount b0 = cb_guestCount inp"
    and fresh: "\<not> list_ex (\<lambda>x. b_id x = b_id b \<or> confirmationCode x = confirmationCode b) (bookings st)"
    and slot': "slot' = s\<lparr> remainingCapacity := remainingCapacity s - cb_guestCount inp,
                           s_status := (if remainingCapacity s - cb_guestCount inp = 0 then BOOKED
                                        else s_status s) \<rparr>"
    and stT: "slots stT = (slots st)(cb_slotId inp \<mapsto> slot')" "bookings stT = bookings st @ [b]"
    by auto
  have bf: "b_slotId b = cb_slotId inp" "guestCount b = cb_guestCount inp"
    using b b0 by (simp_all add: generateConfirmationCode_fields)
  from fresh have "\<not> list_ex (\<lambda>x. b_id x = b_id b) (bookings st)"
    by (auto simp: list_ex_iff)
  then have f: "find (\<lambda>x. b_id x = b_id b) (bookings st1) = Some b"
    using bs stT(2) by (simp add: find_snoc_fresh)
  from cancelBooking_InrD [OF x] f have
    sl2: "slots st2 =
            (case slots st1 (b_slotId b) of
               None \<Rightarrow> slots st1
             | Some slot \<Rightarrow> (slots st1)(b_slotId b \<mapsto> creditedSlot slot (guestCount b)))"
    by auto
  have s1v: "slots st1 (cb_slotId inp) = Some slot'" using sl stT(1) by simp
  have s2v: "slots st2 = (slots st1)(cb_slotId inp \<mapsto> creditedSlot slot' (cb_guestCount inp))"
    using sl2 s1v bf by simp
  from acc have av: "s_status s = AVAILABLE" and pos: "remainingCapacity s > 0"
    by (simp_all add: canAccommodate_def isAvailable_def)
  have restored: "creditedSlot slot' (cb_guestCount inp) = s"
    using av pos by (simp add: creditedSlot_def slot')
  have same: "slots st2 = slots st"
    using s2v restored sl stT(1) s by (simp add: fun_upd_idem)
  show ?thesis
    using s s1v same slot' av pos by (intro exI [of _ s] exI [of _ slot']) simp
qed


theorem create_then_cancel_restores_capacity_witness:
  "createBooking defaultEnv request1 state1 = (Inr booking1, state1_booked)
   \<and> fst (cancelBooking defaultEnv
              \<lparr> cx_bookingId = b_id booking1, cx_userId = ''u1'', cx_reason = None \<rparr>
              state1_booked) = Inr booking1_cancelled
   \<and> slots state1 ''s1'' = Some slot1
   \<and> slots state1_booked ''s1'' = Some (slot1\<lparr> remainingCapacity := 0, s_status := BOOKED \<rparr>)
   \<and> slots (snd (cancelBooking defaultEnv
                     \<lparr> cx_bookingId = b_id booking1, cx_userId = ''u1'', cx_reason = None \<rparr>
                     state1_booked)) = slots state1"
proof -
  let ?x = "\<lparr> cx_bookingId = b_id booking1, cx_userId = ''u1'', cx_reason = None \<rparr>"
  have f: "fst (cancelBooking defaultEnv ?x state1_booked) = Inr booking1_cancelled"
    by (simp add: cancel_defs scenario_defs)
  then have x: "cancelBooking defaultEnv ?x state1_booked
                  = (Inr booking1_cancelled, snd (cancelBooking defaultEnv ?x state1_booked))"
    by (simp add: prod_eq_iff)
  have s: "slots state1 ''s1'' = Some slot1"
          "slots state1_booked ''s1'' = Some (slot1\<lparr> remainingCapacity := 0, s_status := BOOKED \<rparr>)"
    by (simp_all add: scenario_defs)
  from create_then_cancel_restores_capacity [OF createBooking_request1_full x]
  have "slots (snd (cancelBooking defaultEnv ?x state1_booked)) = slots state1"
    by blast
  with createBooking_request1_full f s show ?thesis by simp
qed

section \<open>The paths through createBooking\<close>

lemma createBooking_transaction_frame:
  "createBooking_transaction env inp (st\<lparr> redis := r, txLog := l \<rparr>)
     = map_sum id (\<lambda>(b, s, t). (b, s, t\<lparr> redis := r, txLog := l \<rparr>))
         (createBooking_transaction env inp st)"
  by (simp add: createBooking_transaction_def Let_def split: option.splits sum.splits)

lemma createBooking_transaction_Inl_code:
  assumes "createBooking_transaction env inp st = Inl e"
  shows "e \<in> {BookingError USER_NOT_FOUND 404, BookingError MAX_BOOKINGS_REACHED 429,
               BookingError SLOT_NOT_FOUND 404, BookingError SLOT_BLOCKED 400,
               BookingError INSUFFICIENT_CAPACITY 400, BookingError SLOT_IN_PAST 400,
               BookingError ADVANCE_LIMIT_EXCEEDED 400, BookingError DUPLICATE_BOOKING 409,
               InfraError UniqueViolation, InfraError CheckViolation}"
  using assms unfolding createBooking_transaction_def
  by (auto simp: Let_def insertBooking_def saveSlot_def bookingError_def
           split: option.splits if_splits sum.splits)

lemma createBooking_postCommit_Inl:
  assumes "createBooking_postCommit env inp booking slot st = (Inl e, st')"
  shows "e = InfraError CacheFailure \<or> e = InfraError QueueFailure"
  using assms unfolding createBooking_postCommit_def invalidateSlotCache_def addJob_def
  by (auto simp: Let_def split: if_splits)

lemma createBooking_not_acquired:
  assumes "fst (acquireLock env (''booking:slot:'' @ cb_slotId inp) 15000 (redis st)) = None"
  shows "fst (createBooking env inp st) = Inl (BookingError SLOT_LOCKED 409)"
  using assms by (cases "acquireLock env (''booking:slot:'' @ cb_slotId inp) 15000 (redis st)")
    (simp add: createBooking_def)

lemma acquireLock_Some:
  assumes "fst (acquireLock env key ttl r) = Some lockId"
  shows "acquireLock env key ttl r
           = (Some lockId, r(''lock:'' @ key \<mapsto> \<lparr> r_value = lockId, r_expiresAt = Some (now env + ttl) \<rparr>))"
  using assms by (auto simp: acquireLock_def Let_def split: option.splits)

lemma createBooking_transaction_error:
  assumes a: "fst (acquireLock env (''booking:slot:'' @ cb_slotId inp) 15000 (redis st)) = Some lockId"
      and t: "createBooking_transaction env inp st = Inl e"
  shows "fst (createBooking env inp st) = Inl e"
    and "users (snd (createBooking env inp st)) = users st"
    and "slots (snd (createBooking env inp st)) = slots st"
    and "bookings (snd (createBooking env inp st)) = bookings st"
    and "txLog (snd (createBooking env inp st)) = txLog st @ [TxBegin, TxRollback]"
  using acquireLock_Some [OF a] t
  by (simp_all add: createBooking_def createBooking_try_def createBooking_transaction_frame
        catchBlock_def rollbackTransaction_def Let_def)

lemma createBooking_commit_error:
  assumes a: "fst (acquireLock env (''booking:slot:'' @ cb_slotId inp) 15000 (redis st)) = Some lockId"
      and t: "createBooking_transaction env inp st = Inr (b, slot', stT)"
      and c: "\<not> commitOk env 0"
  shows "fst (createBooking env inp st) = Inl (InfraError CommitFailure)"
    and "users (snd (createBooking env inp st)) = users st"
    and "slots (snd (createBooking env inp st)) = slots st"
    and "bookings (snd (createBooking env inp st)) = bookings st"
    and "txLog (snd (createBooking env inp st)) = txLog st @ [TxBegin, TxRollback]"
    and "redis (snd (createBooking env inp st))
           = (redis st)((''lock:'' @ ''booking:slot:'' @ cb_slotId inp) := None)"
  using acquireLock_Some [OF a] t c
  by (simp_all add: createBooking_def createBooking_try_def createBooking_transaction_frame
        catchBlock_def rollbackTransaction_def Let_def releaseLock_def redis_get_def redis_del_def)

lemma createBooking_committed:
  assumes a: "fst (acquireLock env (''booking:slot:'' @ cb_slotId inp) 15000 (redis st)) = Some lockId"
      and t: "createBooking_transaction env inp st = Inr (b, slot', stT)"
      and c: "commitOk env 0"
  shows "fst (createBooking env inp st) = Inr b
         \<or> fst (createBooking env inp st) = Inl (InfraError TransactionNotStartedError)"
  using acquireLock_Some [OF a] t c
  by (auto simp add: createBooking_def createBooking_try_def createBooking_transaction_frame
        catchBlock_def rollbackTransaction_def Let_def createBooking_postCommit_def
        invalidateSlotCache_def addJob_def split: prod.splits sum.splits if_splits)

lemma createBooking_slot_locked_iff:
  "fst (createBooking env inp st) = Inl (BookingError SLOT_LOCKED 409)
     \<longleftrightarrow> fst (acquireLock env (''booking:slot:'' @ cb_slotId inp) 15000 (redis st)) = None"
proof (cases "fst (acquireLock env (''booking:slot:'' @ cb_slotId inp) 15000 (redis st))")
  case None
  then show ?thesis by (simp add: createBooking_not_acquired)
next
  case (Some lockId)
  show ?thesis
  proof (cases "createBooking_transaction env inp st")
    case (Inl e)
    from createBooking_transaction_Inl_code [OF Inl] createBooking_transaction_error(1) [OF Some Inl]
    show ?thesis using Some by auto
  next
    case (Inr t)
    obtain b slot' stT where "t = (b, slot', stT)" by (cases t)
    with Inr have t: "createBooking_transaction env inp st = Inr (b, slot', stT)" by simp
    show ?thesis
    proof (cases "commitOk env 0")
      case True
      from createBooking_committed [OF Some t True] Some show ?thesis by auto
    next
      case False
      from createBooking_commit_error(1) [OF Some t False] Some show ?thesis by simp
    qed
  qed
qed

section \<open>The confirmation code of every new booking\<close>

lemma upper_table:
  "list_all (\<lambda>c. map_of (zip ''0123456789abcdef'' ''0123456789ABCDEF'') c = Some (toUpperChar c))
     ''0123456789abcdef''"
  by code_simp

lemma upper_table_hex:
  "isLowerHex c \<Longrightarrow> map_of (zip ''0123456789abcdef'' ''0123456789ABCDEF'') c = Some (toUpperChar c)"
  unfolding isLowerHex_def using upper_table unfolding list_all_iff by blast

lemma generateConfirmationCode_digits:
  assumes "isUuid (uuid env)" and "confirmationCode b = []"
  shows "map Some (drop 4 (confirmationCode (generateConfirmationCode env b)))
           = map (map_of (zip ''0123456789abcdef'' ''0123456789ABCDEF'')) (take 8 (uuid env))"
proof -
  have h: "list_all isLowerHex (take 8 (uuid env))" using assms(1) by (simp add: isUuid_def)
  have k: "(Some \<circ> toUpperChar) c = map_of (zip ''0123456789abcdef'' ''0123456789ABCDEF'') c"
    if "c \<in> set (take 8 (uuid env))" for c
  proof -
    from h that have "isLowerHex c" unfolding list_all_iff by blast
    from upper_table_hex [OF this] show ?thesis unfolding o_apply by (rule sym)
  qed
  have d: "drop 4 (confirmationCode (generateConfirmationCode env b))
             = map toUpperChar (take 8 (uuid env))"
    by (simp add: generateConfirmationCode_format(1) [OF assms] toUpperCase_def)
  show ?thesis unfolding d map_map by (rule map_cong [OF refl k])
qed

lemma createBooking_bookings_cases:
  "bookings (snd (createBooking env inp st)) = bookings st
   \<or> (\<exists>b slot' stT. createBooking_transaction env inp st = Inr (b, slot', stT)
          \<and> bookings (snd (createBooking env inp st)) = bookings st @ [b])"
proof (cases "fst (acquireLock env (''booking:slot:'' @ cb_slotId inp) 15000 (redis st))")
  case None
  then show ?thesis
    by (cases "acquireLock env (''booking:slot:'' @ cb_slotId inp) 15000 (redis st)")
       (simp add: createBooking_def)
next
  case (Some lockId)
  show ?thesis
  proof (cases "createBooking_transaction env inp st")
    case (Inl e)
    from createBooking_transaction_error(4) [OF Some Inl] show ?thesis by simp
  next
    case (Inr t)
    obtain b slot' stT where "t = (b, slot', stT)" by (cases t)
    with Inr have t: "createBooking_transaction env inp st = Inr (b, slot', stT)" by simp
    show ?thesis
    proof (cases "commitOk env 0")
      case False
      from createBooking_commit_error(4) [OF Some t False] show ?thesis by simp
    next
      case True
      have "bookings stT = bookings st @ [b]"
        using createBooking_transaction_InrD [OF t] by auto
      moreover have "bookings (snd (createBooking env inp st)) = bookings stT"
        using acquireLock_Some [OF Some] t True
        by (auto simp add: createBooking_def createBooking_try_def createBooking_transaction_frame
              catchBlock_def rollbackTransaction_def Let_def createBooking_postCommit_def
              invalidateSlotCache_def addJob_def split: prod.splits sum.splits if_splits)
      ultimately show ?thesis using t by simp
    qed
  qed
qed

text \<open>
  Claim C7. Whenever \<^verbatim>\<open>uuidv4()\<close> returns a string of the UUID shape, every booking
  that \<^verbatim>\<open>createBooking\<close> creates (the one it returns, and any booking it adds to the
  table, also when the call ends with an error after the commit) carries the code
  \<^verbatim>\<open>RSV-\<close> followed by 8 characters: the first 8 hexadecimal digits of that UUID, each
  digit \<open>0\<close> to \<open>9\<close> kept and each letter \<open>a\<close> to \<open>f\<close> replaced by \<open>A\<close> to \<open>F\<close>. The
  code has 12 characters in all, the last 8 of them upper-case hexadecimal digits, and the
  booking is in the table.
\<close>

theorem confirmationCode_format:
  assumes u: "isUuid (uuid env)"
      and n: "fst (createBooking env inp st) = Inr b
              \<or> (b \<in> set (bookings (snd (createBooking env inp st))) \<and> b \<notin> set (bookings st))"
  shows "take 4 (confirmationCode b) = ''RSV-''
         \<and> map Some (drop 4 (confirmationCode b))
             = map (map_of (zip ''0123456789abcdef'' ''0123456789ABCDEF'')) (take 8 (uuid env))
         \<and> length (confirmationCode b) = 12
         \<and> list_all (\<lambda>c. c \<in> set ''0123456789ABCDEF'') (drop 4 (confirmationCode b))
         \<and> b \<in> set (bookings (snd (createBooking env inp st)))"
proof -
  have "\<exists>b0. b = generateConfirmationCode env b0 \<and> confirmationCode b0 = []
              \<and> b \<in> set (bookings (snd (createBooking env inp st)))"
    using n
  proof
    assume r: "fst (createBooking env inp st) = Inr b"
    from createBooking_InrD [OF r] obtain r' slot' stT where
      t: "createBooking_transaction env inp (st\<lparr> redis := r', txLog := txLog st @ [TxBegin] \<rparr>)
            = Inr (b, slot', stT)"
      and bs: "bookings (snd (createBooking env inp st)) = bookings stT"
      by blast
    from createBooking_transaction_InrD [OF t] bs show ?thesis by auto
  next
    assume m: "b \<in> set (bookings (snd (createBooking env inp st))) \<and> b \<notin> set (bookings st)"
    with createBooking_bookings_cases [of env inp st] obtain b' slot' stT where
      t: "createBooking_transaction env inp st = Inr (b', slot', stT)"
      and bs: "bookings (snd (createBooking env inp st)) = bookings st @ [b']"
      by auto
    with m have "b' = b" by auto
    with createBooking_transaction_InrD [OF t] m show ?thesis by auto
  qed
  then obtain b0 where
    b: "b = generateConfirmationCode env b0" and e: "confirmationCode b0 = []"
    and m: "b \<in> set (bookings (snd (createBooking env inp st)))"
    by blast
  note f = generateConfirmationCode_format [OF u e, folded b]
  note d = generateConfirmationCode_digits [OF u e, folded b]
  from f(1) have p: "take 4 (confirmationCode b) = ''RSV-''" by simp
  from f(3) have h: "list_all (\<lambda>c. c \<in> set ''0123456789ABCDEF'') (drop 4 (confirmationCode b))"
    by (simp add: isUpperHex_def [abs_def])
  from p d f(2) h m show ?thesis by blast
qed

theorem confirmationCode_format_witness:
  "isUuid (uuid defaultEnv)
   \<and> uuid defaultEnv = ''3f2a9c1e-7b4d-4e8a-9c0f-5d6e7f8a9b0c''
   \<and> fst (createBooking defaultEnv request1 state1) = Inr booking1
   \<and> fst (createBooking (defaultEnv\<lparr> cacheDelOk := False \<rparr>) request1 state1)
       = Inl (InfraError TransactionNotStartedError)
   \<and> booking1 \<in> set (bookings (snd (createBooking (defaultEnv\<lparr> cacheDelOk := False \<rparr>)
                                          request1 state1)))
   \<and> booking1 \<notin> set (bookings state1)
   \<and> confirmationCode booking1 = ''RSV-3F2A9C1E''
   \<and> map Some (drop 4 (confirmationCode booking1))
       = map (map_of (zip ''0123456789abcdef'' ''0123456789ABCDEF'')) (take 8 (uuid defaultEnv))
   \<and> length (confirmationCode booking1) = 12
   \<and> booking1 \<in> set (bookings (snd (createBooking defaultEnv request1 state1)))"
proof -
  let ?env = "defaultEnv\<lparr> cacheDelOk := False \<rparr>"
  have u: "isUuid (uuid ?env)" using isUuid_defaultEnv by simp
  have v: "uuid defaultEnv = ''3f2a9c1e-7b4d-4e8a-9c0f-5d6e7f8a9b0c''"
    by (simp add: defaultEnv_def)
  have c: "confirmationCode booking1 = ''RSV-3F2A9C1E''" by (simp add: booking1_def)
  have x: "fst (createBooking ?env request1 state1) = Inl (InfraError TransactionNotStartedError)"
    by (simp add: create_defs scenario_defs toUpperChar_digits)
  have m: "booking1 \<in> set (bookings (snd (createBooking ?env request1 state1)))
           \<and> booking1 \<notin> set (bookings state1)"
    by (simp add: create_defs scenario_defs toUpperChar_digits)
  note a = confirmationCode_format [OF isUuid_defaultEnv disjI1 [OF createBooking_request1]]
  note b = confirmationCode_format [OF u disjI2 [OF m]]
  from a b isUuid_defaultEnv v createBooking_request1 x m c show ?thesis by blast
qed

section \<open>A failing commit\<close>

text \<open>
  Claim C4, as amended. When the lock was acquired, the transaction body went through and
  the commit fails, \<^verbatim>\<open>createBooking\<close> does not retry: it opens one transaction and
  rolls it back, persists neither the booking nor the slot change, releases the lock, and
  returns the commit failure itself to the caller, not \<open>SLOT_LOCKED\<close>. In every
  invocation, \<open>SLOT_LOCKED\<close> is returned exactly when the slot lock could not be
  acquired.
\<close>

theorem createBooking_commit_failure_not_retried:
  assumes a: "fst (acquireLock env (''booking:slot:'' @ cb_slotId inp) 15000 (redis st)) = Some lockId"
      and t: "createBooking_transaction env inp st = Inr (b, slot', stT)"
      and c: "\<not> commitOk env 0"
  shows "fst (createBooking env inp st) = Inl (InfraError CommitFailure)
         \<and> fst (createBooking env inp st) \<noteq> Inl (BookingError SLOT_LOCKED 409)
         \<and> users (snd (createBooking env inp st)) = users st
         \<and> slots (snd (createBooking env inp st)) = slots st
         \<and> bookings (snd (createBooking env inp st)) = bookings st
         \<and> txLog (snd (createBooking env inp st)) = txLog st @ [TxBegin, TxRollback]
         \<and> redis (snd (createBooking env inp st)) (''lock:booking:slot:'' @ cb_slotId inp) = None
         \<and> (\<forall>env' inp' st'.
               fst (createBooking env' inp' st') = Inl (BookingError SLOT_LOCKED 409)
               \<longleftrightarrow> fst (acquireLock env' (''booking:slot:'' @ cb_slotId inp') 15000 (redis st')) = None)"
  using createBooking_commit_error [OF a t c] createBooking_slot_locked_iff
  by simp

theorem createBooking_commit_failure_not_retried_witness:
  "fst (acquireLock conflictEnv (''booking:slot:'' @ cb_slotId request1) 15000 (redis state1))
     = Some (''lock:'' @ show_int 0 @ '':k3x9'')
   \<and> createBooking_transaction conflictEnv request1 state1
       = Inr (booking1, slot1\<lparr> remainingCapacity := 0, s_status := BOOKED \<rparr>,
              state1\<lparr> bookings := [booking1],
                      slots := [''s1'' \<mapsto> slot1\<lparr> remainingCapacity := 0, s_status := BOOKED \<rparr>] \<rparr>)
   \<and> \<not> commitOk conflictEnv 0
   \<and> fst (createBooking conflictEnv request1 state1) = Inl (InfraError CommitFailure)
   \<and> bookings (snd (createBooking conflictEnv request1 state1)) = bookings state1
   \<and> txLog (snd (createBooking conflictEnv request1 state1)) = [TxBegin, TxRollback]"
proof -
  have a: "fst (acquireLock conflictEnv (''booking:slot:'' @ cb_slotId request1) 15000 (redis state1))
             = Some (''lock:'' @ show_int 0 @ '':k3x9'')"
    by (simp add: acquireLock_def redis_get_def Let_def conflictEnv_def scenario_defs)
  have t: "createBooking_transaction conflictEnv request1 state1
             = Inr (booking1, slot1\<lparr> remainingCapacity := 0, s_status := BOOKED \<rparr>,
                    state1\<lparr> bookings := [booking1],
                            slots := [''s1'' \<mapsto> slot1\<lparr> remainingCapacity := 0, s_status := BOOKED \<rparr>] \<rparr>)"
    by (simp add: create_defs conflictEnv_def scenario_defs toUpperChar_digits)
  have c: "\<not> commitOk conflictEnv 0" by (simp add: conflictEnv_def defaultEnv_def)
  have l: "txLog state1 = []" by (simp add: state1_def)
  from createBooking_commit_failure_not_retried [OF a t c] a t c l
  show ?thesis by simp
qed

text \<open>
  Claim C4 as stated fails: with a first commit that conflicts and later commits that would
  succeed, the call opens a single transaction, rolls it back and returns the commit
  failure; nothing is retried and the error is not \<open>SLOT_LOCKED\<close>.
\<close>

theorem createBooking_conflict_counterexample:
  "\<not> commitOk conflictEnv 0 \<and> commitOk conflictEnv 1
   \<and> fst (createBooking conflictEnv request1 state1) = Inl (InfraError CommitFailure)
   \<and> fst (createBooking conflictEnv request1 state1) \<noteq> Inl (BookingError SLOT_LOCKED 409)
   \<and> txLog (snd (createBooking conflictEnv request1 state1)) = [TxBegin, TxRollback]
   \<and> bookings (snd (createBooking conflictEnv request1 state1)) = []"
  by (simp add: create_defs scenario_defs toUpperChar_digits conflictEnv_def)

section \<open>The order of the precondition checks\<close>

text \<open>
  Claim C6, as amended. For a \<^verbatim>\<open>createBooking\<close> that holds the lock, found an active
  user below the booking cap and found the slot, the checks fire in the order
  \<open>SLOT_BLOCKED\<close>, \<open>INSUFFICIENT_CAPACITY\<close>, \<open>SLOT_IN_PAST\<close>,
  \<open>ADVANCE_LIMIT_EXCEEDED\<close>, \<open>DUPLICATE_BOOKING\<close>, the first failure winning; and
  \<open>INSUFFICIENT_CAPACITY\<close> is returned exactly when the slot is not blocked and is
  not at once \<open>AVAILABLE\<close>, with a positive remaining capacity, and with a remaining
  capacity of at least the guest count. It depends on the slot's status as well as on the
  comparison.
\<close>

theorem createBooking_gauntlet_order:
  assumes a: "fst (acquireLock env (''booking:slot:'' @ cb_slotId inp) 15000 (redis st)) = Some lockId"
      and u: "users st (cb_userId inp) = Some usr" "isActive usr"
      and m: "int (length (filter (\<lambda>b. b_userId b = cb_userId inp \<and> b_status b = CONFIRMED)
                             (bookings st))) < maxConcurrentBookingsPerUser env"
      and s: "slots st (cb_slotId inp) = Some slot"
  shows "(s_status slot = BLOCKED
            \<longrightarrow> fst (createBooking env inp st) = Inl (BookingError SLOT_BLOCKED 400))
       \<and> (s_status slot \<noteq> BLOCKED
            \<and> \<not> (s_status slot = AVAILABLE \<and> 0 < remainingCapacity slot
                    \<and> cb_guestCount inp \<le> remainingCapacity slot)
            \<longrightarrow> fst (createBooking env inp st) = Inl (BookingError INSUFFICIENT_CAPACITY 400))
       \<and> (s_status slot = AVAILABLE \<and> 0 < remainingCapacity slot
            \<and> cb_guestCount inp \<le> remainingCapacity slot
            \<and> endTime slot < now env
            \<longrightarrow> fst (createBooking env inp st) = Inl (BookingError SLOT_IN_PAST 400))
       \<and> (s_status slot = AVAILABLE \<and> 0 < remainingCapacity slot
            \<and> cb_guestCount inp \<le> remainingCapacity slot
            \<and> \<not> endTime slot < now env
            \<and> now env + maxBookingAdvanceDays env * 86400000 < startTime slot
            \<longrightarrow> fst (createBooking env inp st) = Inl (BookingError ADVANCE_LIMIT_EXCEEDED 400))
       \<and> (s_status slot = AVAILABLE \<and> 0 < remainingCapacity slot
            \<and> cb_guestCount inp \<le> remainingCapacity slot
            \<and> \<not> endTime slot < now env
            \<and> \<not> now env + maxBookingAdvanceDays env * 86400000 < startTime slot
            \<and> list_ex (\<lambda>b. b_userId b = cb_userId inp \<and> b_slotId b = cb_slotId inp
                            \<and> b_status b = CONFIRMED) (bookings st)
            \<longrightarrow> fst (createBooking env inp st) = Inl (BookingError DUPLICATE_BOOKING 409))
       \<and> (fst (createBooking env inp st) = Inl (BookingError INSUFFICIENT_CAPACITY 400)
            \<longleftrightarrow> s_status slot \<noteq> BLOCKED
                \<and> \<not> (s_status slot = AVAILABLE \<and> 0 < remainingCapacity slot
                        \<and> cb_guestCount inp \<le> remainingCapacity slot))"
proof -
  let ?R = "fst (createBooking env inp st)"
  let ?acc = "s_status slot = AVAILABLE \<and> 0 < remainingCapacity slot
                \<and> cb_guestCount inp \<le> remainingCapacity slot"
  note pre = u m s
  have blocked: "?R = Inl (BookingError SLOT_BLOCKED 400)" if "s_status slot = BLOCKED"
  proof -
    have "createBooking_transaction env inp st = Inl (BookingError SLOT_BLOCKED 400)"
      using pre that by (simp add: createBooking_transaction_def Let_def bookingError_def)
    then show ?thesis by (rule createBooking_transaction_error(1) [OF a])
  qed
  have insufficient: "?R = Inl (BookingError INSUFFICIENT_CAPACITY 400)"
    if "s_status slot \<noteq> BLOCKED" and "\<not> ?acc"
  proof -
    have "createBooking_transaction env inp st = Inl (BookingError INSUFFICIENT_CAPACITY 400)"
      using pre that
      by (simp add: createBooking_transaction_def Let_def bookingError_def canAccommodate_def
            isAvailable_def)
    then show ?thesis by (rule createBooking_transaction_error(1) [OF a])
  qed
  have past: "?R = Inl (BookingError SLOT_IN_PAST 400)" if "?acc" and "endTime slot < now env"
  proof -
    have "createBooking_transaction env inp st = Inl (BookingError SLOT_IN_PAST 400)"
      using pre that
      by (simp add: createBooking_transaction_def Let_def bookingError_def canAccommodate_def
            isAvailable_def isPast_def)
    then show ?thesis by (rule createBooking_transaction_error(1) [OF a])
  qed
  have advance: "?R = Inl (BookingError ADVANCE_LIMIT_EXCEEDED 400)"
    if "?acc" and "\<not> endTime slot < now env"
      and "now env + maxBookingAdvanceDays env * 86400000 < startTime slot"
  proof -
    have "createBooking_transaction env inp st = Inl (BookingError ADVANCE_LIMIT_EXCEEDED 400)"
      using pre that
      by (simp add: createBooking_transaction_def Let_def bookingError_def canAccommodate_def
            isAvailable_def isPast_def)
    then show ?thesis by (rule createBooking_transaction_error(1) [OF a])
  qed
  have duplicate: "?R = Inl (BookingError DUPLICATE_BOOKING 409)"
    if "?acc" and "\<not> endTime slot < now env"
      and "\<not> now env + maxBookingAdvanceDays env * 86400000 < startTime slot"
      and d: "list_ex (\<lambda>b. b_userId b = cb_userId inp \<and> b_slotId b = cb_slotId inp
                            \<and> b_status b = CONFIRMED) (bookings st)"
  proof -
    from d obtain x where
      "find (\<lambda>b. b_userId b = cb_userId inp \<and> b_slotId b = cb_slotId inp
                  \<and> b_status b = CONFIRMED) (bookings st) = Some x"
      by (cases "find (\<lambda>b. b_userId b = cb_userId inp \<and> b_slotId b = cb_slotId inp
                  \<and> b_status b = CONFIRMED) (bookings st)")
         (auto simp: find_None_iff list_ex_iff)
    then have "createBooking_transaction env inp st = Inl (BookingError DUPLICATE_BOOKING 409)"
      using pre that(1-3)
      by (simp add: createBooking_transaction_def Let_def bookingError_def canAccommodate_def
            isAvailable_def isPast_def)
    then show ?thesis by (rule createBooking_transaction_error(1) [OF a])
  qed
  have only: "s_status slot \<noteq> BLOCKED \<and> \<not> ?acc"
    if r: "?R = Inl (BookingError INSUFFICIENT_CAPACITY 400)"
  proof (rule ccontr)
    assume n: "\<not> (s_status slot \<noteq> BLOCKED \<and> \<not> ?acc)"
    show False
    proof (cases "s_status slot = BLOCKED")
      case True
      from blocked [OF True] r show False by simp
    next
      case False
      with n have acc: "?acc" by blast
      show False
      proof (cases "createBooking_transaction env inp st")
        case (Inl e)
        from createBooking_transaction_error(1) [OF a Inl] r
        have e: "e = BookingError INSUFFICIENT_CAPACITY 400" by simp
        from Inl [unfolded e] pre acc show False
          by (simp add: createBooking_transaction_def Let_def bookingError_def canAccommodate_def
                isAvailable_def insertBooking_def saveSlot_def
              split: if_splits option.splits sum.splits)
      next
        case (Inr t)
        obtain b slot' stT where "t = (b, slot', stT)" by (cases t)
        with Inr have t: "createBooking_transaction env inp st = Inr (b, slot', stT)" by simp
        show False
        proof (cases "commitOk env 0")
          case True
          from createBooking_committed [OF a t True] r show False by auto
        next
          case False
          from createBooking_commit_error(1) [OF a t False] r show False by simp
        qed
      qed
    qed
  qed
  from blocked insufficient past advance duplicate only show ?thesis by blast
qed

theorem createBooking_gauntlet_order_witness:
  "fst (acquireLock defaultEnv (''booking:slot:'' @ cb_slotId requestHeld) 15000 (redis stateHeld))
     = Some (''lock:'' @ show_int 0 @ '':k3x9'')
   \<and> users stateHeld (cb_userId requestHeld) = Some \<lparr> u_role = MEMBER, isActive = True \<rparr>
   \<and> slots stateHeld (cb_slotId requestHeld)
       = Some (slot1\<lparr> capacity := 5, remainingCapacity := 5, s_status := HELD \<rparr>)
   \<and> fst (createBooking defaultEnv requestHeld stateHeld)
       = Inl (BookingError INSUFFICIENT_CAPACITY 400)"
proof -
  let ?slot = "slot1\<lparr> capacity := 5, remainingCapacity := 5, s_status := HELD \<rparr>"
  have a: "fst (acquireLock defaultEnv (''booking:slot:'' @ cb_slotId requestHeld) 15000
                  (redis stateHeld)) = Some (''lock:'' @ show_int 0 @ '':k3x9'')"
    by (simp add: acquireLock_def redis_get_def Let_def scenario_defs stateHeld_def requestHeld_def)
  have u: "users stateHeld (cb_userId requestHeld) = Some \<lparr> u_role = MEMBER, isActive = True \<rparr>"
          "isActive \<lparr> u_role = MEMBER, isActive = True \<rparr>"
    by (simp_all add: scenario_defs stateHeld_def requestHeld_def)
  have m: "int (length (filter (\<lambda>b. b_userId b = cb_userId requestHeld \<and> b_status b = CONFIRMED)
                          (bookings stateHeld))) < maxConcurrentBookingsPerUser defaultEnv"
    by (simp add: scenario_defs stateHeld_def requestHeld_def)
  have s: "slots stateHeld (cb_slotId requestHeld) = Some ?slot"
    by (simp add: scenario_defs stateHeld_def requestHeld_def)
  have h: "s_status ?slot \<noteq> BLOCKED
           \<and> \<not> (s_status ?slot = AVAILABLE \<and> 0 < remainingCapacity ?slot
                   \<and> cb_guestCount requestHeld \<le> remainingCapacity ?slot)"
    by simp
  from createBooking_gauntlet_order [OF a u m s] h
  have "fst (createBooking defaultEnv requestHeld stateHeld)
          = Inl (BookingError INSUFFICIENT_CAPACITY 400)"
    by blast
  with a u(1) s show ?thesis by blast
qed

text \<open>
  Claim C6 as stated fails: a held slot with five remaining places refuses a booking for
  two guests with \<open>INSUFFICIENT_CAPACITY\<close>, although the remaining capacity is not
  below the guest count.
\<close>

theorem createBooking_held_counterexample:
  "slots stateHeld (cb_slotId requestHeld)
     = Some (slot1\<lparr> capacity := 5, remainingCapacity := 5, s_status := HELD \<rparr>)
   \<and> cb_guestCount requestHeld = 2
   \<and> \<not> (5 < cb_guestCount requestHeld)
   \<and> fst (createBooking defaultEnv requestHeld stateHeld)
       = Inl (BookingError INSUFFICIENT_CAPACITY 400)"
  by (simp add: create_defs scenario_defs stateHeld_def requestHeld_def)

section \<open>Who may cancel\<close>

lemma cancelBooking_try_Inl:
  assumes "cancelBooking_try env inp booking rel st = (Inl e, act, st')"
  shows "\<exists>f. e = InfraError f"
  using assms unfolding cancelBooking_try_def invalidateSlotCache_def addJob_def saveSlot_def
    saveLoadedBooking_def
  by (auto simp: Let_def split: option.splits if_splits sum.splits)

lemma catchBlock_infra:
  "fst (catchBlock (InfraError f) act st) \<noteq> BookingError c n"
  by (simp add: catchBlock_def rollbackTransaction_def)

lemma cancelBooking_unauthorized_iff:
  assumes f: "find (\<lambda>b. b_id b = cx_bookingId inp) (bookings st) = Some booking"
  shows "fst (cancelBooking env inp st) = Inl (BookingError UNAUTHORIZED 403)
           \<longleftrightarrow> b_userId booking \<noteq> cx_userId inp"
proof (cases "b_userId booking \<noteq> cx_userId inp")
  case True
  with f show ?thesis by (simp add: cancelBooking_def)
next
  case False
  show ?thesis
  proof (cases "isCancellable env booking")
    case n: False
    with f False show ?thesis by (simp add: cancelBooking_def bookingError_def)
  next
    case c: True
    let ?st0 = "st\<lparr> txLog := txLog st @ [TxBegin] \<rparr>"
    obtain res act st1 where
      t: "cancelBooking_try env inp booking (slots st (b_slotId booking)) ?st0 = (res, act, st1)"
      by (cases "cancelBooking_try env inp booking (slots st (b_slotId booking)) ?st0")
    show ?thesis
    proof (cases res)
      case (Inr b)
      with f False c t show ?thesis by (simp add: cancelBooking_def Let_def)
    next
      case (Inl e)
      with cancelBooking_try_Inl t obtain g where "e = InfraError g" by blast
      with f False c t Inl catchBlock_infra [of g act st1 UNAUTHORIZED 403] show ?thesis
        by (auto simp: cancelBooking_def Let_def split: prod.splits)
    qed
  qed
qed

lemma cancelBooking_unauthorized_state:
  assumes "find (\<lambda>b. b_id b = cx_bookingId inp) (bookings st) = Some booking"
      and "b_userId booking \<noteq> cx_userId inp"
  shows "cancelBooking env inp st = (Inl (BookingError UNAUTHORIZED 403), st)"
  using assms by (simp add: cancelBooking_def)

lemma handleError_unauthorized:
  "handleError e = GraphQLError (Code UNAUTHORIZED) (Some 403) \<longleftrightarrow> e = BookingError UNAUTHORIZED 403"
  by (cases e) (auto simp: handleError_def)

text \<open>
  Claim C3, as amended. For an authenticated caller and an existing booking, the cancel
  request is refused with \<open>UNAUTHORIZED\<close> (403) exactly when the caller's user id
  differs from the booking's \<open>userId\<close>, whatever the caller's role, and then nothing
  changes; this holds for the resolver and for the service method it calls.
\<close>

theorem cancel_authorization_owner_only:
  assumes r: "requireAuth ctx = Inr caller"
      and f: "find (\<lambda>b. b_id b = ca_bookingId args) (bookings st) = Some booking"
  shows "(fst (mutation_cancelBooking env ctx args st)
             = Inl (GraphQLError (Code UNAUTHORIZED) (Some 403))
           \<longleftrightarrow> a_userId caller \<noteq> b_userId booking)
       \<and> (a_userId caller \<noteq> b_userId booking
            \<longrightarrow> snd (mutation_cancelBooking env ctx args st) = st)
       \<and> (fst (cancelBooking env \<lparr> cx_bookingId = ca_bookingId args, cx_userId = a_userId caller,
                                    cx_reason = ca_reason args \<rparr> st)
             = Inl (BookingError UNAUTHORIZED 403)
           \<longleftrightarrow> a_userId caller \<noteq> b_userId booking)"
proof -
  let ?inp = "\<lparr> cx_bookingId = ca_bookingId args, cx_userId = a_userId caller,
                cx_reason = ca_reason args \<rparr>"
  have f': "find (\<lambda>b. b_id b = cx_bookingId ?inp) (bookings st) = Some booking"
    using f by simp
  have svc: "fst (cancelBooking env ?inp st) = Inl (BookingError UNAUTHORIZED 403)
               \<longleftrightarrow> a_userId caller \<noteq> b_userId booking"
    using cancelBooking_unauthorized_iff [OF f', of env] by auto
  obtain res st' where c: "cancelBooking env ?inp st = (res, st')"
    by (cases "cancelBooking env ?inp st")
  have m: "fst (mutation_cancelBooking env ctx args st)
             = (case res of Inl e \<Rightarrow> Inl (handleError e) | Inr b \<Rightarrow> Inr b)"
    using r c by (simp add: mutation_cancelBooking_def split: sum.splits option.splits)
  have res: "fst (mutation_cancelBooking env ctx args st)
               = Inl (GraphQLError (Code UNAUTHORIZED) (Some 403))
             \<longleftrightarrow> res = Inl (BookingError UNAUTHORIZED 403)"
    by (cases res) (simp_all add: m handleError_unauthorized)
  have unchanged: "snd (mutation_cancelBooking env ctx args st) = st"
    if "a_userId caller \<noteq> b_userId booking"
  proof -
    from that have "b_userId booking \<noteq> cx_userId ?inp" by auto
    from cancelBooking_unauthorized_state [OF f' this, of env] r show ?thesis
      by (simp add: mutation_cancelBooking_def)
  qed
  from svc res c unchanged show ?thesis by simp
qed

theorem cancel_authorization_owner_only_witness:
  "requireAuth adminCtx
      = Inr \<lparr> a_userId = ''root'', a_email = ''root@example.org'', a_role = ADMIN \<rparr>
   \<and> requireAuth ownerCtx
      = Inr \<lparr> a_userId = ''u1'', a_email = ''u1@example.org'', a_role = MEMBER \<rparr>
   \<and> find (\<lambda>b. b_id b = ca_bookingId cancelArgs1) (bookings state1_booked) = Some booking1
   \<and> fst (mutation_cancelBooking defaultEnv adminCtx cancelArgs1 state1_booked)
       = Inl (GraphQLError (Code UNAUTHORIZED) (Some 403))
   \<and> snd (mutation_cancelBooking defaultEnv adminCtx cancelArgs1 state1_booked) = state1_booked
   \<and> fst (mutation_cancelBooking defaultEnv ownerCtx cancelArgs1 state1_booked)
       \<noteq> Inl (GraphQLError (Code UNAUTHORIZED) (Some 403))"
proof -
  have ra: "requireAuth adminCtx
              = Inr \<lparr> a_userId = ''root'', a_email = ''root@example.org'', a_role = ADMIN \<rparr>"
    by (simp add: requireAuth_def adminCtx_def)
  have ro: "requireAuth ownerCtx
              = Inr \<lparr> a_userId = ''u1'', a_email = ''u1@example.org'', a_role = MEMBER \<rparr>"
    by (simp add: requireAuth_def ownerCtx_def)
  have f: "find (\<lambda>b. b_id b = ca_bookingId cancelArgs1) (bookings state1_booked) = Some booking1"
    by (simp add: cancelArgs1_def scenario_defs)
  have na: "a_userId \<lparr> a_userId = ''root'', a_email = ''root@example.org'', a_role = ADMIN \<rparr>
              \<noteq> b_userId booking1"
    by (simp add: booking1_def)
  have no: "\<not> a_userId \<lparr> a_userId = ''u1'', a_email = ''u1@example.org'', a_role = MEMBER \<rparr>
              \<noteq> b_userId booking1"
    by (simp add: booking1_def)
  from cancel_authorization_owner_only [OF ra f, of defaultEnv] na
       cancel_authorization_owner_only [OF ro f, of defaultEnv] no ra ro f
  show ?thesis by blast
qed

text \<open>
  Claim C3 as stated fails: an administrator who does not own the booking is refused with
  \<open>UNAUTHORIZED\<close> (403) and the stores are unchanged.
\<close>

theorem admin_cancel_counterexample:
  "requireAuth adminCtx
      = Inr \<lparr> a_userId = ''root'', a_email = ''root@example.org'', a_role = ADMIN \<rparr>
   \<and> find (\<lambda>b. b_id b = ca_bookingId cancelArgs1) (bookings state1_booked) = Some booking1
   \<and> b_userId booking1 = ''u1''
   \<and> mutation_cancelBooking defaultEnv adminCtx cancelArgs1 state1_booked
       = (Inl (GraphQLError (Code UNAUTHORIZED) (Some 403)), state1_booked)"
  by (simp add: mutation_cancelBooking_def requireAuth_def handleError_def cancel_defs
        scenario_defs adminCtx_def cancelArgs1_def)

section \<open>The cancellation window\<close>

text \<open>
  Claim C1, at the input where the code departs from it: the clock plus the 24-hour
  window is 86400000, the slot of the confirmed booking starts at 43200000 (12 hours
  ahead), and \<^verbatim>\<open>cancelBooking\<close> by the owner returns the cancelled booking, stores
  it, and credits the slot, where the claim requires \<open>CANCELLATION_NOT_ALLOWED\<close> and
  an unchanged booking and slot.
\<close>

theorem cancelBooking_inside_window:
  "now defaultEnv + cancellationWindowHours defaultEnv * 3600000 = 86400000
   \<and> startTime slot12h = 43200000
   \<and> slots state12h ''s1'' = Some slot12h
   \<and> find (\<lambda>b. b_id b = ''b1'') (bookings state12h) = Some booking1
   \<and> b_status booking1 = CONFIRMED
   \<and> fst (cancelBooking defaultEnv cancel1 state12h) = Inr booking1_cancelled
   \<and> bookings (snd (cancelBooking defaultEnv cancel1 state12h)) = [booking1_cancelled]
   \<and> slots (snd (cancelBooking defaultEnv cancel1 state12h)) ''s1''
        = Some (slot12h\<lparr> remainingCapacity := 1, s_status := AVAILABLE \<rparr>)"
  by (simp add: cancel_defs scenario_defs state12h_def slot12h_def)

section \<open>Failures after the commit\<close>

text \<open>
  Claim C2, at the inputs where the code departs from it: every check passes and the
  commit succeeds; when the cache invalidation fails, or when the enqueue fails, the
  caller receives an error although the booking is in the table and the transaction log
  ends with the commit. A failing notification, by contrast, leaves the result intact.
\<close>

theorem createBooking_post_commit_failure:
  "fst (createBooking (defaultEnv\<lparr> cacheDelOk := False \<rparr>) request1 state1)
      = Inl (InfraError TransactionNotStartedError)
   \<and> bookings (snd (createBooking (defaultEnv\<lparr> cacheDelOk := False \<rparr>) request1 state1)) = [booking1]
   \<and> txLog (snd (createBooking (defaultEnv\<lparr> cacheDelOk := False \<rparr>) request1 state1))
      = [TxBegin, TxCommit]
   \<and> fst (createBooking (defaultEnv\<lparr> addJobOk := False \<rparr>) request1 state1)
      = Inl (InfraError TransactionNotStartedError)
   \<and> bookings (snd (createBooking (defaultEnv\<lparr> addJobOk := False \<rparr>) request1 state1)) = [booking1]
   \<and> fst (createBooking (defaultEnv\<lparr> snsOk := False \<rparr>) request1 state1) = Inr booking1"
  by (simp add: create_defs scenario_defs toUpperChar_digits)

section \<open>Unblocking a slot\<close>

lemma blockSlot_state1_booked:
  "slots (snd (mutation_blockSlot adminCtx ''s1'' None state1_booked)) ''s1''
     = Some (slot1\<lparr> remainingCapacity := 0, s_status := BLOCKED,
                    s_metadata := [''blockedBy'' \<mapsto> ''root''] \<rparr>)"
  by (simp add: mutation_blockSlot_def requireRole_def requireAuth_def adminCtx_def scenario_defs
        Let_def)

text \<open>
  Claim C9. For an administrator and an existing slot, \<^verbatim>\<open>unblockSlot\<close> stores and
  returns the slot with status \<open>AVAILABLE\<close> whatever its status was, and leaves the
  remaining capacity as it is; when nothing remains, the stored slot is \<open>AVAILABLE\<close>
  with remaining capacity 0, which breaks the consistency of status and capacity. The
  state is reached by booking the last place of a slot, blocking it and unblocking it.
\<close>

theorem unblockSlot_unconditional:
  assumes r: "requireRole ctx [ADMIN] = Inr admin"
      and s: "slots st slotId = Some slot"
  shows "mutation_unblockSlot ctx slotId st
           = (Inr (slot\<lparr> s_status := AVAILABLE \<rparr>),
              st\<lparr> slots := (slots st)(slotId \<mapsto> slot\<lparr> s_status := AVAILABLE \<rparr>) \<rparr>)
         \<and> s_status (slot\<lparr> s_status := AVAILABLE \<rparr>) = AVAILABLE
         \<and> remainingCapacity (slot\<lparr> s_status := AVAILABLE \<rparr>) = remainingCapacity slot
         \<and> (remainingCapacity slot = 0
              \<longrightarrow> \<not> statusCapacityConsistent (slot\<lparr> s_status := AVAILABLE \<rparr>))"
  using r s by (simp add: mutation_unblockSlot_def statusCapacityConsistent_def Let_def)

theorem unblockSlot_unconditional_witness:
  "createBooking defaultEnv request1 state1 = (Inr booking1, state1_booked)
   \<and> statusCapacityConsistent (slot1\<lparr> remainingCapacity := 0, s_status := BOOKED \<rparr>)
   \<and> requireRole adminCtx [ADMIN]
       = Inr \<lparr> a_userId = ''root'', a_email = ''root@example.org'', a_role = ADMIN \<rparr>
   \<and> slots (snd (mutation_blockSlot adminCtx ''s1'' None state1_booked)) ''s1''
       = Some (slot1\<lparr> remainingCapacity := 0, s_status := BLOCKED,
                      s_metadata := [''blockedBy'' \<mapsto> ''root''] \<rparr>)
   \<and> fst (mutation_unblockSlot adminCtx ''s1''
             (snd (mutation_blockSlot adminCtx ''s1'' None state1_booked)))
       = Inr (slot1\<lparr> remainingCapacity := 0, s_status := AVAILABLE,
                     s_metadata := [''blockedBy'' \<mapsto> ''root''] \<rparr>)
   \<and> \<not> statusCapacityConsistent (slot1\<lparr> remainingCapacity := 0, s_status := AVAILABLE,
                                          s_metadata := [''blockedBy'' \<mapsto> ''root''] \<rparr>)"
proof -
  let ?blocked = "slot1\<lparr> remainingCapacity := 0, s_status := BLOCKED,
                         s_metadata := [''blockedBy'' \<mapsto> ''root''] \<rparr>"
  have r: "requireRole adminCtx [ADMIN]
             = Inr \<lparr> a_userId = ''root'', a_email = ''root@example.org'', a_role = ADMIN \<rparr>"
    by (simp add: requireRole_def requireAuth_def adminCtx_def)
  have z: "remainingCapacity ?blocked = 0" by simp
  have e: "?blocked\<lparr> s_status := AVAILABLE \<rparr>
             = slot1\<lparr> remainingCapacity := 0, s_status := AVAILABLE,
                      s_metadata := [''blockedBy'' \<mapsto> ''root''] \<rparr>"
    by simp
  have c: "statusCapacityConsistent (slot1\<lparr> remainingCapacity := 0, s_status := BOOKED \<rparr>)"
    by (simp add: statusCapacityConsistent_def)
  note u = unblockSlot_unconditional [OF r blockSlot_state1_booked]
  from u z have "\<not> statusCapacityConsistent (?blocked\<lparr> s_status := AVAILABLE \<rparr>)" by blast
  moreover from u have "fst (mutation_unblockSlot adminCtx ''s1''
             (snd (mutation_blockSlot adminCtx ''s1'' None state1_booked)))
       = Inr (?blocked\<lparr> s_status := AVAILABLE \<rparr>)" by simp
  ultimately show ?thesis
    using createBooking_request1_full c r blockSlot_state1_booked unfolding e by blast
qed

section \<open>Cancelling a booking whose slot is gone\<close>


end
